theory Spec2Isabelle
  imports Main "HOL-Library.Word"
begin

unbundle bit_operations_syntax

section \<open>Conventions\<close>

text \<open>
  Pointers are addresses, \<open>0\<close> is \<open>NULL\<close>.  A C \<open>int\<close> is a \<open>32 word\<close> read with
  \<open>sint\<close>, \<open>uint32_t\<close> is a \<open>32 word\<close>, \<open>uint64_t\<close> and \<open>size_t\<close> are \<open>64 word\<close>
  (an LP64 platform).  The conversion of an \<open>int\<close> to \<open>uint64_t\<close> or \<open>size_t\<close> that C
  performs in mixed comparisons and divisions is the sign extension \<open>scast\<close>.

  Everything that ends the process instead of returning is a value of \<open>fault\<close>.
  A variable that the source calls \<open>size\<close> is written \<open>size'\<close>, since \<open>size\<close> is a
  constant of HOL.
\<close>

type_synonym addr = nat

datatype fault =
    Division_by_zero
  | Null_dereference
  | Exit_after_backtrace int
  | Never_returns

section \<open>The sequence partitioner (src/storage/sequence_partitioner.c)\<close>

datatype partitioner_tag =
    BSAL_SEQUENCE_PARTITIONER_SET_BLOCK_SIZE_REPLY
  | BSAL_SEQUENCE_PARTITIONER_SET_ENTRY_VECTOR_REPLY
  | BSAL_SEQUENCE_PARTITIONER_SET_ACTOR_COUNT_REPLY
  | BSAL_SEQUENCE_PARTITIONER_PROVIDE_STORE_ENTRY_COUNTS

text \<open>
  A reply is a tag and a buffer.  \<open>bsal_vector_pack\<close> is not part of the sources at hand;
  the buffer of a packed vector is represented by the vector's elements.
\<close>

datatype reply_buffer = Empty_buffer | Packed_vector "64 word list"

type_synonym reply = "partitioner_tag \<times> reply_buffer"

text \<open>
  The fields of \<open>struct bsal_sequence_partitioner\<close> that
  \<open>bsal_sequence_partitioner_verify\<close> and the three configuration branches of
  \<open>bsal_sequence_partitioner_receive\<close> read or write.
\<close>

record bsal_sequence_partitioner =
  stream_entries :: "64 word list"
  stream_positions :: "64 word list"
  stream_global_positions :: "64 word list"
  store_entries :: "64 word list"
  store_current_entries :: "64 word list"
  store_count :: "32 word"
  partitioner_block_size :: "32 word"
  total :: "64 word"
  command_number :: "32 word"

text \<open>
  \<open>bsal_sequence_partitioner_init\<close>: the vectors are empty, \<open>store_count\<close> and
  \<open>block_size\<close> are \<open>-1\<close>.  The field \<open>total\<close> is not initialised by the source; its
  initial content is the argument.
\<close>

definition bsal_sequence_partitioner_init :: "64 word \<Rightarrow> bsal_sequence_partitioner" where
  "bsal_sequence_partitioner_init garbage =
     \<lparr> stream_entries = [], stream_positions = [], stream_global_positions = [],
       store_entries = [], store_current_entries = [],
       store_count = - 1, partitioner_block_size = - 1,
       total = garbage, command_number = 0 \<rparr>"

text \<open>
  \<open>bsal_vector_push_back(&stream_positions, &position)\<close> copies one element of the vector,
  8 bytes, from the address of the \<open>int position\<close>, which has 4: the low half of the
  element pushed is \<open>position\<close> (little-endian), the high half is what lies beyond
  \<open>position\<close> in the frame of \<open>verify\<close> at that time.  No rule of the language fixes these
  4 bytes; they are the argument \<open>beyond\<close>.
\<close>

definition position_as_pushed :: "32 word \<Rightarrow> 32 word \<Rightarrow> 64 word" where
  "position_as_pushed position beyond = ucast position OR push_bit 32 (ucast beyond)"

text \<open>
  The first loop of \<open>verify\<close>: for every stream, push the (zero) position and the running
  total, then add the stream's entries to the running total.  \<open>beyond i\<close> are the bytes
  beyond \<open>position\<close> at the push of iteration \<open>i\<close>.
\<close>

fun verify_stream_loop ::
  "(nat \<Rightarrow> 32 word) \<Rightarrow> nat \<Rightarrow> 64 word list \<Rightarrow> 64 word \<Rightarrow> bsal_sequence_partitioner \<Rightarrow>
   64 word \<times> bsal_sequence_partitioner"
where
  "verify_stream_loop beyond i [] entries self = (entries, self)"
| "verify_stream_loop beyond i (stream_entries_i # rest) entries self =
     verify_stream_loop beyond (Suc i) rest (entries + stream_entries_i)
       (self\<lparr> stream_positions := stream_positions self @ [position_as_pushed 0 (beyond i)],
              stream_global_positions := stream_global_positions self @ [entries] \<rparr>)"

text \<open>
  The second loop of \<open>verify\<close>, \<open>for (i = 0; i < store_count; i++)\<close>; the first argument
  is the number of iterations that remain.  \<open>remaining -= entries\<close> is unsigned and wraps.
\<close>

fun verify_store_loop ::
  "nat \<Rightarrow> 64 word \<Rightarrow> 64 word \<Rightarrow> bsal_sequence_partitioner \<Rightarrow> bsal_sequence_partitioner"
where
  "verify_store_loop 0 entries remaining self = self"
| "verify_store_loop (Suc n) entries remaining self =
     (let self1 = self\<lparr> store_entries := store_entries self @ [entries] \<rparr>;
          remaining1 = remaining - entries;
          entries1 = (if remaining1 < entries then remaining1 else entries);
          self2 = self1\<lparr> store_current_entries := store_current_entries self1 @ [0] \<rparr>
      in verify_store_loop n entries1 remaining1 self2)"

text \<open>
  \<open>bsal_sequence_partitioner_verify\<close>.  The result is the new state and the replies sent.
  \<open>total / store_count\<close> is a division of \<open>uint64_t\<close> values; with \<open>store_count = 0\<close> it
  is a division by zero.
\<close>

definition bsal_sequence_partitioner_verify ::
  "(nat \<Rightarrow> 32 word) \<Rightarrow> bsal_sequence_partitioner \<Rightarrow>
   fault + (bsal_sequence_partitioner \<times> reply list)"
where
  "bsal_sequence_partitioner_verify beyond self =
     (if partitioner_block_size self = - 1 then Inr (self, [])
      else if store_count self = - 1 then Inr (self, [])
      else if length (stream_entries self) = 0 then Inr (self, [])
      else
        let (entries, self1) = verify_stream_loop beyond 0 (stream_entries self) 0 self;
            self2 = self1\<lparr> total := entries \<rparr>
        in if store_count self2 = 0 then Inl Division_by_zero
           else
             let entries1 = total self2 div scast (store_count self2);
                 entries2 = (if entries1 < scast (partitioner_block_size self2)
                             then scast (partitioner_block_size self2) else entries1);
                 self3 = verify_store_loop (nat (sint (store_count self2))) entries2
                           (total self2) self2
             in Inr (self3,
                  [(BSAL_SEQUENCE_PARTITIONER_PROVIDE_STORE_ENTRY_COUNTS,
                    Packed_vector (store_entries self3))]))"

text \<open>
  The three configuration branches of \<open>bsal_sequence_partitioner_receive\<close>: store the
  value, reply with the empty acknowledgement, call \<open>verify\<close>.  \<open>bsal_vector_unpack\<close> is
  not part of the sources at hand; it is taken to replace the vector's content by the
  unpacked elements.
\<close>

datatype configuration_message =
    BSAL_SEQUENCE_PARTITIONER_SET_BLOCK_SIZE "32 word"
  | BSAL_SEQUENCE_PARTITIONER_SET_ENTRY_VECTOR "64 word list"
  | BSAL_SEQUENCE_PARTITIONER_SET_ACTOR_COUNT "32 word"

fun bsal_sequence_partitioner_receive ::
  "(nat \<Rightarrow> 32 word) \<Rightarrow> bsal_sequence_partitioner \<Rightarrow> configuration_message \<Rightarrow>
   fault + (bsal_sequence_partitioner \<times> reply list)"
where
  "bsal_sequence_partitioner_receive beyond self (BSAL_SEQUENCE_PARTITIONER_SET_BLOCK_SIZE n) =
     (case bsal_sequence_partitioner_verify beyond (self\<lparr> partitioner_block_size := n \<rparr>) of
        Inl f \<Rightarrow> Inl f
      | Inr (self1, sent) \<Rightarrow>
          Inr (self1, (BSAL_SEQUENCE_PARTITIONER_SET_BLOCK_SIZE_REPLY, Empty_buffer) # sent))"
| "bsal_sequence_partitioner_receive beyond self (BSAL_SEQUENCE_PARTITIONER_SET_ENTRY_VECTOR v) =
     (case bsal_sequence_partitioner_verify beyond (self\<lparr> stream_entries := v \<rparr>) of
        Inl f \<Rightarrow> Inl f
      | Inr (self1, sent) \<Rightarrow>
          Inr (self1, (BSAL_SEQUENCE_PARTITIONER_SET_ENTRY_VECTOR_REPLY, Empty_buffer) # sent))"
| "bsal_sequence_partitioner_receive beyond self (BSAL_SEQUENCE_PARTITIONER_SET_ACTOR_COUNT n) =
     (case bsal_sequence_partitioner_verify beyond (self\<lparr> store_count := n \<rparr>) of
        Inl f \<Rightarrow> Inl f
      | Inr (self1, sent) \<Rightarrow>
          Inr (self1, (BSAL_SEQUENCE_PARTITIONER_SET_ACTOR_COUNT_REPLY, Empty_buffer) # sent))"

text \<open>
  A sequence of messages, handled one after the other; the replies accumulate.
  \<open>beyond k\<close> are the bytes beyond \<open>position\<close> during the \<open>k\<close>-th message.
\<close>

fun receive_all ::
  "(nat \<Rightarrow> nat \<Rightarrow> 32 word) \<Rightarrow> bsal_sequence_partitioner \<Rightarrow> configuration_message list \<Rightarrow>
   fault + (bsal_sequence_partitioner \<times> reply list)"
where
  "receive_all beyond self [] = Inr (self, [])"
| "receive_all beyond self (m # ms) =
     (case bsal_sequence_partitioner_receive (beyond 0) self m of
        Inl f \<Rightarrow> Inl f
      | Inr (self1, sent) \<Rightarrow>
          (case receive_all (\<lambda>k. beyond (Suc k)) self1 ms of
             Inl f \<Rightarrow> Inl f
           | Inr (self2, sent2) \<Rightarrow> Inr (self2, sent @ sent2)))"


subsection \<open>The handshake\<close>

text \<open>
  C1.  After \<open>SET_BLOCK_SIZE = 4096\<close>, \<open>SET_ENTRY_VECTOR = [10000]\<close> and
  \<open>SET_ACTOR_COUNT = 3\<close> the partitioner has acknowledged the three messages and replied with
  \<open>PROVIDE_STORE_ENTRY_COUNTS\<close> carrying \<open>[4096, 4096, 1808]\<close>; these are the store entries
  that the verify step pushed, in that order; they sum to 10000 and the first two are the
  block size.  The verify step alone, run on the state that holds the three values, pushes
  the same counts and sends that reply.  This holds whatever the field \<open>total\<close> held at
  first and whatever lies beyond \<open>position\<close>.
\<close>

theorem partitioner_handshake_store_entry_counts:
  "(case receive_all beyond (bsal_sequence_partitioner_init garbage)
           [BSAL_SEQUENCE_PARTITIONER_SET_BLOCK_SIZE 4096,
            BSAL_SEQUENCE_PARTITIONER_SET_ENTRY_VECTOR [10000],
            BSAL_SEQUENCE_PARTITIONER_SET_ACTOR_COUNT 3] of
      Inl f \<Rightarrow> False
    | Inr (self, sent) \<Rightarrow>
        sent = [(BSAL_SEQUENCE_PARTITIONER_SET_BLOCK_SIZE_REPLY, Empty_buffer),
                (BSAL_SEQUENCE_PARTITIONER_SET_ENTRY_VECTOR_REPLY, Empty_buffer),
                (BSAL_SEQUENCE_PARTITIONER_SET_ACTOR_COUNT_REPLY, Empty_buffer),
                (BSAL_SEQUENCE_PARTITIONER_PROVIDE_STORE_ENTRY_COUNTS,
                 Packed_vector [4096, 4096, 1808])] \<and>
        store_entries self = [4096, 4096, 1808] \<and>
        sum_list (map unat (store_entries self)) = 10000 \<and>
        store_entries self ! 0 = scast (partitioner_block_size self) \<and>
        store_entries self ! 1 = scast (partitioner_block_size self)) \<and>
   (case bsal_sequence_partitioner_verify beyond_position
           ((bsal_sequence_partitioner_init garbage)
              \<lparr> stream_entries := [10000], store_count := 3,
                partitioner_block_size := 4096 \<rparr>) of
      Inl f \<Rightarrow> False
    | Inr (self, sent) \<Rightarrow>
        sent = [(BSAL_SEQUENCE_PARTITIONER_PROVIDE_STORE_ENTRY_COUNTS,
                 Packed_vector [4096, 4096, 1808])] \<and>
        store_entries self = [4096, 4096, 1808])"
  by (simp add: bsal_sequence_partitioner_verify_def bsal_sequence_partitioner_init_def
      numeral_3_eq_3 Let_def)

section \<open>The memory pool (core/system/memory_pool.c, second part of
  src/genomics/assembly/unitig/unitig_manager.h)\<close>

subsection \<open>What the pool stands on\<close>

text \<open>
  The system allocator, the memory block, the bitmap helpers and the containers are used by
  the pool and are not part of the sources at hand.
\<close>

text \<open>
  Modelled from the spec: \<open>bsal_memory_allocate\<close> and \<open>bsal_memory_free\<close> are missing; the spec
  only says that a request is served "directly from the system".  The system is the list of
  its live regions (base address and length) and the list of addresses it will offer to
  the coming requests.  A request is served with the next offer when that is a non-null
  address whose region lies inside the 64-bit address space and apart from every live
  region; otherwise the request fails with \<open>NULL\<close>.  Every behaviour of an allocator that
  returns fresh memory or fails is an instance, by the choice of the offers.
\<close>

record system_memory =
  live :: "(addr \<times> nat) list"
  offers :: "addr list"

definition region_apart :: "addr \<Rightarrow> nat \<Rightarrow> addr \<times> nat \<Rightarrow> bool" where
  "region_apart a n r = (a + max 1 n \<le> fst r \<or> fst r + max 1 (snd r) \<le> a)"

definition region_free :: "(addr \<times> nat) list \<Rightarrow> addr \<Rightarrow> nat \<Rightarrow> bool" where
  "region_free rs a n = (a \<noteq> 0 \<and> a + max 1 n \<le> 2 ^ 64 \<and> list_all (region_apart a n) rs)"

definition bsal_memory_allocate :: "system_memory \<Rightarrow> nat \<Rightarrow> addr \<times> system_memory" where
  "bsal_memory_allocate sys n =
     (case offers sys of
        [] \<Rightarrow> (0, sys)
      | a # rest \<Rightarrow>
          if region_free (live sys) a n
          then (a, \<lparr> live = (a, n) # live sys, offers = rest \<rparr>)
          else (0, sys\<lparr> offers := rest \<rparr>))"

definition bsal_memory_free :: "system_memory \<Rightarrow> addr \<Rightarrow> system_memory" where
  "bsal_memory_free sys p = sys\<lparr> live := filter (\<lambda>r. fst r \<noteq> p) (live sys) \<rparr>"

text \<open>
  Modelled from the spec: \<open>struct bsal_memory_block\<close> and its functions are missing; the spec
  calls the block a bump allocator whose bump pointer \<open>free_all\<close> resets "without freeing
  underlying blocks".  A block is its storage (obtained from the system when the block is
  initialised), the bump offset and the capacity.  An allocation that does not fit, or in
  a block without storage, returns \<open>NULL\<close>.
\<close>

record bsal_memory_block =
  memory :: addr
  offset :: nat
  total_bytes :: "32 word"

definition bsal_memory_block_init ::
  "system_memory \<Rightarrow> 32 word \<Rightarrow> bsal_memory_block \<times> system_memory"
where
  "bsal_memory_block_init sys capacity =
     (let (p, sys1) = bsal_memory_allocate sys (unat (scast capacity :: 64 word))
      in (\<lparr> memory = p, offset = 0, total_bytes = capacity \<rparr>, sys1))"

definition bsal_memory_block_allocate ::
  "bsal_memory_block \<Rightarrow> 64 word \<Rightarrow> addr \<times> bsal_memory_block"
where
  "bsal_memory_block_allocate block size' =
     (if memory block = 0 \<or> sint (total_bytes block) < int (offset block) + uint size'
      then (0, block)
      else (memory block + offset block, block\<lparr> offset := offset block + unat size' \<rparr>))"

definition bsal_memory_block_free_all :: "bsal_memory_block \<Rightarrow> bsal_memory_block" where
  "bsal_memory_block_free_all block = block\<lparr> offset := 0 \<rparr>"

text \<open>
  Modelled from the spec: the bitmap helpers of core/helpers/bitmap are missing (only their
  prototypes are at hand); a flag is one bit of the \<open>uint32_t\<close>.
\<close>

definition bsal_bitmap_get_bit_uint32_t :: "32 word \<Rightarrow> nat \<Rightarrow> bool" where
  "bsal_bitmap_get_bit_uint32_t w i = bit w i"

definition bsal_bitmap_set_bit_uint32_t :: "32 word \<Rightarrow> nat \<Rightarrow> 32 word" where
  "bsal_bitmap_set_bit_uint32_t w i = set_bit i w"

definition bsal_bitmap_clear_bit_uint32_t :: "32 word \<Rightarrow> nat \<Rightarrow> 32 word" where
  "bsal_bitmap_clear_bit_uint32_t w i = unset_bit i w"

subsection \<open>The pool\<close>

definition FLAG_ENABLE_TRACKING :: nat where "FLAG_ENABLE_TRACKING = 0"
definition FLAG_DISABLED :: nat where "FLAG_DISABLED = 1"
definition FLAG_ENABLE_SEGMENT_NORMALIZATION :: nat where "FLAG_ENABLE_SEGMENT_NORMALIZATION = 2"

text \<open>
  \<open>struct bsal_memory_pool\<close>, by the fields the functions use.  The recycle bin maps an
  \<open>int\<close> to a queue of pointers, the allocated blocks map a pointer to an \<open>int\<close> (both maps
  are initialised with \<open>sizeof(int)\<close> for the size); a queue is the list of its elements,
  oldest first.  The queues of blocks hold pointers to blocks that only the pool refers
  to; the model holds the blocks themselves.
\<close>

record bsal_memory_pool =
  recycle_bin :: "32 word \<rightharpoonup> addr list"
  allocated_blocks :: "addr \<rightharpoonup> 32 word"
  large_blocks :: "addr set"
  current_block :: "bsal_memory_block option"
  dried_blocks :: "bsal_memory_block list"
  ready_blocks :: "bsal_memory_block list"
  block_size :: "32 word"
  flags :: "32 word"

text \<open>
  What the build fixes and the sources at hand do not show: whether
  \<open>BSAL_MEMORY_POOL_DISCARD_EMPTY_QUEUES\<close> is defined, and
  \<open>sizeof(struct bsal_memory_block)\<close>.  \<open>BSAL_MEMORY_ALIGNMENT_ENABLED\<close> is taken as not
  defined (\<open>bsal_memory_align\<close> is not at hand either).
\<close>

record build_options =
  discard_empty_queues :: bool
  sizeof_memory_block :: nat

definition bsal_memory_pool_init :: "32 word \<Rightarrow> bsal_memory_pool" where
  "bsal_memory_pool_init size' =
     \<lparr> recycle_bin = Map.empty, allocated_blocks = Map.empty, large_blocks = {},
       current_block = None, dried_blocks = [], ready_blocks = [],
       block_size = size',
       flags = bsal_bitmap_clear_bit_uint32_t
                 (bsal_bitmap_clear_bit_uint32_t
                    (bsal_bitmap_set_bit_uint32_t 0 FLAG_ENABLE_TRACKING)
                    FLAG_ENABLE_SEGMENT_NORMALIZATION)
                 FLAG_DISABLED \<rparr>"

definition bsal_memory_pool_disable_tracking :: "bsal_memory_pool \<Rightarrow> bsal_memory_pool" where
  "bsal_memory_pool_disable_tracking self =
     self\<lparr> flags := bsal_bitmap_clear_bit_uint32_t (flags self) FLAG_ENABLE_TRACKING \<rparr>"

definition bsal_memory_pool_enable_tracking :: "bsal_memory_pool \<Rightarrow> bsal_memory_pool" where
  "bsal_memory_pool_enable_tracking self =
     self\<lparr> flags := bsal_bitmap_set_bit_uint32_t (flags self) FLAG_ENABLE_TRACKING \<rparr>"

definition bsal_memory_pool_enable_normalization :: "bsal_memory_pool \<Rightarrow> bsal_memory_pool" where
  "bsal_memory_pool_enable_normalization self =
     self\<lparr> flags := bsal_bitmap_set_bit_uint32_t (flags self) FLAG_ENABLE_SEGMENT_NORMALIZATION \<rparr>"

definition bsal_memory_pool_disable_normalization :: "bsal_memory_pool \<Rightarrow> bsal_memory_pool" where
  "bsal_memory_pool_disable_normalization self =
     self\<lparr> flags := bsal_bitmap_clear_bit_uint32_t (flags self) FLAG_ENABLE_SEGMENT_NORMALIZATION \<rparr>"

definition bsal_memory_pool_disable :: "bsal_memory_pool \<Rightarrow> bsal_memory_pool" where
  "bsal_memory_pool_disable self =
     self\<lparr> flags := bsal_bitmap_set_bit_uint32_t (flags self) FLAG_DISABLED \<rparr>"

subsection \<open>Normalisation of a segment length\<close>

text \<open>
  The loop \<open>while (return_value < size) return_value *= 2\<close> on \<open>size_t\<close>; the product
  wraps.  A run that never leaves the loop is the value \<open>None\<close>.
\<close>

partial_function (option) normalize_doubling_loop :: "64 word \<Rightarrow> 64 word \<Rightarrow> 64 word option" where
  "normalize_doubling_loop return_value size' =
     (if return_value < size' then normalize_doubling_loop (return_value * 2) size'
      else Some return_value)"

text \<open>The bit-twiddling branch, on \<open>uint32_t\<close>.\<close>

definition normalize_bit_twiddle :: "32 word \<Rightarrow> 32 word" where
  "normalize_bit_twiddle value0 =
     (let value1 = value0 - 1;
          value2 = value1 OR drop_bit 1 value1;
          value3 = value2 OR drop_bit 2 value2;
          value4 = value3 OR drop_bit 4 value3;
          value5 = value4 OR drop_bit 8 value4;
          value6 = value5 OR drop_bit 16 value5
      in value6 + 1)"

text \<open>
  The value \<open>y\<close> has a bit wherever \<open>x\<close> has one at the same place or at one of the
  \<open>d - 1\<close> places above: what the shifts of the bit-twiddling branch build up.
\<close>

definition smeared :: "nat \<Rightarrow> 32 word \<Rightarrow> 32 word \<Rightarrow> bool" where
  "smeared d x y = (\<forall>i. bit y i \<longleftrightarrow> (\<exists>j. i \<le> j \<and> j < i + d \<and> bit x j))"

text \<open>
  \<open>bsal_memory_pool_normalize_segment_length\<close> (its argument \<open>self\<close> is not used by the
  source).  \<open>maximum\<close> is \<open>(uint32_t)0 - 1\<close> widened to \<open>size_t\<close>.
\<close>

definition bsal_memory_pool_normalize_segment_length :: "64 word \<Rightarrow> 64 word option" where
  "bsal_memory_pool_normalize_segment_length size' =
     (let maximum = (ucast ((0 :: 32 word) - 1) :: 64 word)
      in if maximum < size' then normalize_doubling_loop 1 size'
         else Some (ucast (normalize_bit_twiddle (ucast size'))))"

subsection \<open>Allocation\<close>

definition then_do :: "fault + 'a \<Rightarrow> ('a \<Rightarrow> fault + 'b) \<Rightarrow> fault + 'b" where
  "then_do r f = (case r of Inl e \<Rightarrow> Inl e | Inr x \<Rightarrow> f x)"

text \<open>
  \<open>bsal_memory_pool_add_block\<close>: take the oldest ready block, or allocate the structure of
  a new block and initialise it.  When the system has no memory for the structure, the
  source initialises through the null pointer.
\<close>

definition bsal_memory_pool_add_block ::
  "build_options \<Rightarrow> system_memory \<Rightarrow> bsal_memory_pool \<Rightarrow>
   fault + (bsal_memory_pool \<times> system_memory)"
where
  "bsal_memory_pool_add_block cfg sys self =
     (case ready_blocks self of
        block # rest \<Rightarrow> Inr (self\<lparr> ready_blocks := rest, current_block := Some block \<rparr>, sys)
      | [] \<Rightarrow>
          let (structure, sys1) = bsal_memory_allocate sys (sizeof_memory_block cfg)
          in if structure = 0 then Inl Null_dereference
             else let (block, sys2) = bsal_memory_block_init sys1 (block_size self)
                  in Inr (self\<lparr> current_block := Some block \<rparr>, sys2))"

text \<open>
  Allocation in the current block (a null \<open>current_block\<close> is dereferenced by
  \<open>bsal_memory_block_allocate\<close>).
\<close>

definition allocate_in_current_block ::
  "bsal_memory_pool \<Rightarrow> 64 word \<Rightarrow> fault + (addr \<times> bsal_memory_pool)"
where
  "allocate_in_current_block self size' =
     (case current_block self of
        None \<Rightarrow> Inl Null_dereference
      | Some block \<Rightarrow>
          let (pointer, block1) = bsal_memory_block_allocate block size'
          in Inr (pointer, self\<lparr> current_block := Some block1 \<rparr>))"

text \<open>Lines 211 to 233 of \<open>bsal_memory_pool_allocate_private\<close>: the bump path.\<close>

definition allocate_from_blocks ::
  "build_options \<Rightarrow> system_memory \<Rightarrow> bsal_memory_pool \<Rightarrow> 64 word \<Rightarrow>
   fault + (addr \<times> bsal_memory_pool \<times> system_memory)"
where
  "allocate_from_blocks cfg sys self size' =
     then_do (if current_block self = None then bsal_memory_pool_add_block cfg sys self
              else Inr (self, sys))
       (\<lambda>(self1, sys1).
     then_do (allocate_in_current_block self1 size')
       (\<lambda>(pointer, self2).
     then_do (if pointer = 0
              then then_do (bsal_memory_pool_add_block cfg sys1
                              (self2\<lparr> dried_blocks := dried_blocks self2 @ [the (current_block self2)],
                                      current_block := None \<rparr>))
                     (\<lambda>(self3, sys3).
                   then_do (allocate_in_current_block self3 size')
                     (\<lambda>(pointer4, self4). Inr (pointer4, self4, sys3)))
              else Inr (pointer, self2, sys1))
       (\<lambda>(pointer5, self5, sys5).
          Inr (pointer5,
               (if bsal_bitmap_get_bit_uint32_t (flags self5) FLAG_ENABLE_TRACKING
                then self5\<lparr> allocated_blocks := (allocated_blocks self5)(pointer5 \<mapsto> ucast size') \<rparr>
                else self5),
               sys5))))"

text \<open>
  \<open>bsal_memory_pool_allocate_private\<close>.  The result is the pointer, the pool and the
  system.  The keys of the recycle bin and the values of the allocated blocks are the
  first \<open>sizeof(int)\<close> bytes of the \<open>size_t size\<close>: its low 32 bits on a little-endian
  machine.  \<open>bsal_map_add_value\<close> is not at hand; it is taken to store the value under the
  key.
\<close>

definition bsal_memory_pool_allocate_private ::
  "build_options \<Rightarrow> system_memory \<Rightarrow> bsal_memory_pool option \<Rightarrow> 64 word \<Rightarrow>
   fault + (addr \<times> bsal_memory_pool option \<times> system_memory)"
where
  "bsal_memory_pool_allocate_private cfg sys self size' =
     (if size' = 0 then Inr (0, self, sys)
      else case self of
        None \<Rightarrow> (let (pointer, sys1) = bsal_memory_allocate sys (unat size')
                 in Inr (pointer, None, sys1))
      | Some pool \<Rightarrow>
          if bsal_bitmap_get_bit_uint32_t (flags pool) FLAG_DISABLED
          then (let (pointer, sys1) = bsal_memory_allocate sys (unat size')
                in Inr (pointer, Some pool, sys1))
          else if scast (block_size pool) \<le> size'
          then (let (pointer, sys1) = bsal_memory_allocate sys (unat size')
                in Inr (pointer,
                        Some (pool\<lparr> large_blocks := insert pointer (large_blocks pool) \<rparr>),
                        sys1))
          else
            let queue = (if bsal_bitmap_get_bit_uint32_t (flags pool) FLAG_ENABLE_TRACKING
                         then recycle_bin pool (ucast size') else None)
            in case queue of
                 Some (pointer # rest) \<Rightarrow>
                   let pool1 = (if bsal_bitmap_get_bit_uint32_t (flags pool) FLAG_ENABLE_TRACKING
                                then pool\<lparr> allocated_blocks :=
                                             (allocated_blocks pool)(pointer \<mapsto> ucast size') \<rparr>
                                else pool);
                       pool2 = pool1\<lparr> recycle_bin :=
                                 (if discard_empty_queues cfg \<and> rest = []
                                  then (recycle_bin pool1)(ucast size' := None)
                                  else (recycle_bin pool1)(ucast size' \<mapsto> rest)) \<rparr>
                   in Inr (pointer, Some pool2, sys)
               | _ \<Rightarrow>
                   then_do (allocate_from_blocks cfg sys pool size')
                     (\<lambda>(pointer, pool1, sys1). Inr (pointer, Some pool1, sys1)))"

text \<open>
  Lines 130 to 137 of \<open>bsal_memory_pool_allocate\<close>: the size that is passed on.  With a
  pool whose normalisation flag is set it is the normalised size; a normalisation that
  never leaves its loop never returns.
\<close>

definition size_after_normalization :: "bsal_memory_pool option \<Rightarrow> 64 word \<Rightarrow> fault + 64 word" where
  "size_after_normalization self size' =
     (case self of
        None \<Rightarrow> Inr size'
      | Some pool \<Rightarrow>
          if bsal_bitmap_get_bit_uint32_t (flags pool) FLAG_ENABLE_SEGMENT_NORMALIZATION
          then (case bsal_memory_pool_normalize_segment_length size' of
                  None \<Rightarrow> Inl Never_returns
                | Some new_size \<Rightarrow> Inr new_size)
          else Inr size')"

text \<open>
  \<open>bsal_memory_pool_allocate\<close>: normalise when the flag is set, allocate, and on a null
  pointer print the stack trace and \<open>exit(1)\<close>.
\<close>

definition bsal_memory_pool_allocate ::
  "build_options \<Rightarrow> system_memory \<Rightarrow> bsal_memory_pool option \<Rightarrow> 64 word \<Rightarrow>
   fault + (addr \<times> bsal_memory_pool option \<times> system_memory)"
where
  "bsal_memory_pool_allocate cfg sys self size' =
     then_do (size_after_normalization self size')
       (\<lambda>size1.
     then_do (bsal_memory_pool_allocate_private cfg sys self size1)
       (\<lambda>(pointer, self1, sys1).
          if pointer = 0 then Inl (Exit_after_backtrace 1)
          else Inr (pointer, self1, sys1)))"

subsection \<open>Release\<close>

text \<open>
  \<open>bsal_memory_pool_free\<close>.  \<open>size\<close> is the \<open>int\<close> read from the allocated blocks; it is the
  key of the recycle bin.
\<close>

definition bsal_memory_pool_free ::
  "system_memory \<Rightarrow> bsal_memory_pool option \<Rightarrow> addr \<Rightarrow> bsal_memory_pool option \<times> system_memory"
where
  "bsal_memory_pool_free sys self pointer =
     (if pointer = 0 then (self, sys)
      else case self of
        None \<Rightarrow> (None, bsal_memory_free sys pointer)
      | Some pool \<Rightarrow>
          if bsal_bitmap_get_bit_uint32_t (flags pool) FLAG_DISABLED
          then (Some pool, bsal_memory_free sys pointer)
          else if pointer \<in> large_blocks pool
          then (Some (pool\<lparr> large_blocks := large_blocks pool - {pointer} \<rparr>),
                bsal_memory_free sys pointer)
          else if \<not> bsal_bitmap_get_bit_uint32_t (flags pool) FLAG_ENABLE_TRACKING
          then (Some pool, sys)
          else case allocated_blocks pool pointer of
                 None \<Rightarrow> (Some pool, sys)
               | Some size' \<Rightarrow>
                   let queue = (case recycle_bin pool size' of None \<Rightarrow> [] | Some q \<Rightarrow> q)
                   in (Some (pool\<lparr> recycle_bin := (recycle_bin pool)(size' \<mapsto> queue @ [pointer]),
                                   allocated_blocks := (allocated_blocks pool)(pointer := None) \<rparr>),
                       sys))"

text \<open>
  The two loops of \<open>bsal_memory_pool_free_all\<close>.  The first dequeues a ready block, resets
  it and enqueues it again, at most \<open>size\<close> times (the first argument counts the iterations
  that remain); the second dequeues the dried blocks until none is left and enqueues them,
  reset, in the ready blocks.
\<close>

fun free_all_ready_loop :: "nat \<Rightarrow> bsal_memory_block list \<Rightarrow> bsal_memory_block list" where
  "free_all_ready_loop 0 ready = ready"
| "free_all_ready_loop (Suc n) ready =
     (case ready of
        [] \<Rightarrow> ready
      | block # rest \<Rightarrow> free_all_ready_loop n (rest @ [bsal_memory_block_free_all block]))"

fun free_all_dried_loop ::
  "bsal_memory_block list \<Rightarrow> bsal_memory_block list \<Rightarrow>
   bsal_memory_block list \<times> bsal_memory_block list"
where
  "free_all_dried_loop [] ready = ([], ready)"
| "free_all_dried_loop (block # rest) ready =
     free_all_dried_loop rest (ready @ [bsal_memory_block_free_all block])"

definition bsal_memory_pool_free_all :: "bsal_memory_pool \<Rightarrow> bsal_memory_pool" where
  "bsal_memory_pool_free_all self =
     (let self1 = (case current_block self of
                     None \<Rightarrow> self
                   | Some block \<Rightarrow>
                       self\<lparr> current_block := Some (bsal_memory_block_free_all block) \<rparr>);
          size' = length (ready_blocks self1);
          self2 = self1\<lparr> ready_blocks := free_all_ready_loop size' (ready_blocks self1) \<rparr>;
          (dried, ready) = free_all_dried_loop (dried_blocks self2) (ready_blocks self2)
      in self2\<lparr> dried_blocks := dried, ready_blocks := ready \<rparr>)"


subsection \<open>The pointers of a pool\<close>

text \<open>
  The blocks of a pool (the dried ones, the current one, the ready ones), the pointers in
  use (the keys of the allocated blocks) and the recycled pointers (the elements of the
  queues of the recycle bin).
\<close>

definition pool_blocks :: "bsal_memory_pool \<Rightarrow> bsal_memory_block list" where
  "pool_blocks self =
     dried_blocks self @ (case current_block self of None \<Rightarrow> [] | Some block \<Rightarrow> [block])
       @ ready_blocks self"



text \<open>
  The length of the storage that a block asked the system for, and the pointers a block
  has handed out since its last reset: those below its bump offset.
\<close>

definition capacity :: "bsal_memory_block \<Rightarrow> nat" where
  "capacity block = unat (scast (total_bytes block) :: 64 word)"


text \<open>The live regions of the system lie apart from each other.\<close>

fun regions_apart :: "(addr \<times> nat) list \<Rightarrow> bool" where
  "regions_apart [] = True"
| "regions_apart (r # rs) = (region_free rs (fst r) (snd r) \<and> regions_apart rs)"







subsection \<open>Values for the witnesses\<close>

text \<open>
  A build, a system that offers two addresses, a pool with blocks of 1024 bytes as
  \<open>bsal_memory_pool_init\<close> leaves it, and the pool and the system after the first
  allocation of 8 bytes: the structure of the block is at 4096, its storage at 8192, and
  the pointer handed out is the start of the storage.
\<close>

definition example_build :: build_options where
  "example_build = \<lparr> discard_empty_queues = False, sizeof_memory_block = 16 \<rparr>"

definition example_system :: system_memory where
  "example_system = \<lparr> live = [], offers = [4096, 8192] \<rparr>"

definition example_pool :: bsal_memory_pool where
  "example_pool = bsal_memory_pool_init 1024"

definition example_pool_in_use :: bsal_memory_pool where
  "example_pool_in_use =
     example_pool\<lparr> current_block := Some \<lparr> memory = 8192, offset = 8, total_bytes = 1024 \<rparr>,
                   allocated_blocks := [8192 \<mapsto> 8] \<rparr>"

definition example_system_in_use :: system_memory where
  "example_system_in_use = \<lparr> live = [(8192, 1024), (4096, 16)], offers = [] \<rparr>"


text \<open>The pool after the first allocation of 700 bytes in place of 8.\<close>

definition example_pool_700 :: bsal_memory_pool where
  "example_pool_700 =
     example_pool\<lparr> current_block := Some \<lparr> memory = 8192, offset = 700, total_bytes = 1024 \<rparr>,
                   allocated_blocks := [8192 \<mapsto> 700] \<rparr>"


lemmas flag_defs =
  bsal_bitmap_get_bit_uint32_t_def bsal_bitmap_set_bit_uint32_t_def
  bsal_bitmap_clear_bit_uint32_t_def FLAG_ENABLE_TRACKING_def FLAG_DISABLED_def
  FLAG_ENABLE_SEGMENT_NORMALIZATION_def

lemmas example_defs =
  example_build_def example_system_def example_pool_def example_pool_in_use_def
  example_system_in_use_def bsal_memory_pool_init_def

lemmas system_defs =
  bsal_memory_allocate_def bsal_memory_free_def region_free_def region_apart_def
  bsal_memory_block_init_def bsal_memory_block_allocate_def

lemma example_flags:
  "bsal_bitmap_get_bit_uint32_t (flags example_pool) FLAG_ENABLE_TRACKING"
  "\<not> bsal_bitmap_get_bit_uint32_t (flags example_pool) FLAG_DISABLED"
  "\<not> bsal_bitmap_get_bit_uint32_t (flags example_pool) FLAG_ENABLE_SEGMENT_NORMALIZATION"
  "flags example_pool_in_use = flags example_pool"
  by (simp_all add: example_defs flag_defs bit_simps)

lemma example_size_after_normalization:
  "size_after_normalization (Some example_pool) s = Inr s"
  "size_after_normalization (Some example_pool_in_use) s = Inr s"
  by (simp_all add: size_after_normalization_def example_flags)

lemma example_allocate_private:
  "bsal_memory_pool_allocate_private example_build example_system (Some example_pool) 8 =
   Inr (8192, Some example_pool_in_use, example_system_in_use)"
  by (simp add: bsal_memory_pool_allocate_private_def allocate_from_blocks_def
      bsal_memory_pool_add_block_def allocate_in_current_block_def then_do_def
      system_defs example_defs flag_defs bit_simps)

subsection \<open>Auxiliary facts\<close>

lemma then_do_Inr_iff:
  "then_do r f = Inr y \<longleftrightarrow> (\<exists>x. r = Inr x \<and> f x = Inr y)"
  by (cases r) (simp_all add: then_do_def)

lemma then_do_simps [simp]:
  "then_do (Inl e) f = Inl e" "then_do (Inr x) f = f x"
  by (simp_all add: then_do_def)

lemma scast_block_size_uint:
  assumes "0 \<le> sint (b :: 32 word)"
  shows "uint (scast b :: 64 word) = sint b"
proof -
  have "sint b < 2 ^ 31" using sint_lt [of b] by simp
  moreover have "(2 :: int) ^ 31 \<le> 2 ^ 64" by simp
  ultimately have lt: "sint b < 2 ^ 64" by (rule less_le_trans)
  have "uint (scast b :: 64 word) = uint (word_of_int (sint b) :: 64 word)"
    by (simp only: scast_eq)
  also have "\<dots> = take_bit LENGTH(64) (sint b)"
    by (rule uint_word_of_int_eq)
  also have "\<dots> = sint b"
    using assms lt by (simp add: take_bit_int_eq_self)
  finally show ?thesis .
qed

lemma scast_block_size_le:
  assumes "0 \<le> sint (b :: 32 word)"
  shows "scast b \<le> (s :: 64 word) \<longleftrightarrow> sint b \<le> uint s"
  using scast_block_size_uint [OF assms] by (simp add: word_le_def)

lemma word_le_or_self: "(x :: 'a::len word) \<le> x OR y"
proof -
  have "uint x \<le> uint x OR uint y" by (rule or_greater_eq) simp
  then show ?thesis by (simp add: word_le_def uint_or)
qed

text \<open>The bit-twiddling branch yields zero or a value that is not below its argument.\<close>

lemma normalize_bit_twiddle_ge:
  "normalize_bit_twiddle v = 0 \<or> v \<le> normalize_bit_twiddle v"
proof (cases "v = 0")
  case True
  then show ?thesis by simp
next
  case False
  define s where "s = normalize_bit_twiddle v - 1"
  have r: "normalize_bit_twiddle v = s + 1" by (simp add: s_def)
  have "v - 1 \<le> s"
  proof -
    have step: "\<And>a b c :: 32 word. a \<le> b \<Longrightarrow> a \<le> b OR c"
      by (rule order_trans [OF _ word_le_or_self])
    show ?thesis
      unfolding s_def normalize_bit_twiddle_def Let_def add_diff_cancel_right'
      by (intro step order_refl)
  qed
  then have le: "unat (v - 1) \<le> unat s" by (simp add: word_le_nat_alt)
  show ?thesis
  proof (cases "s + 1 = 0")
    case True
    with r show ?thesis by simp
  next
    case nz: False
    have "1 + s \<noteq> 0" using nz by (simp add: add.commute)
    then have "unat (1 + s) = Suc (unat s)" by (rule unatSuc)
    then have "unat (s + 1) = Suc (unat s)" by (simp add: add.commute)
    moreover have "unat (v - 1) = unat v - 1" using False by (simp add: unat_minus_one)
    moreover have "0 < unat v" using False by (simp add: unat_gt_0)
    ultimately have "unat v \<le> unat (s + 1)" using le by simp
    with r show ?thesis by (simp add: word_le_nat_alt)
  qed
qed

lemma normalize_doubling_loop_ge:
  assumes "normalize_doubling_loop r s = Some y"
  shows "s \<le> y"
  by (rule normalize_doubling_loop.raw_induct [OF _ assms]) (auto split: if_splits)

lemma normalize_segment_length_ge:
  assumes "bsal_memory_pool_normalize_segment_length s = Some y"
  shows "y = 0 \<or> s \<le> y"
proof (cases "(ucast ((0 :: 32 word) - 1) :: 64 word) < s")
  case True
  with assms show ?thesis
    by (auto simp: bsal_memory_pool_normalize_segment_length_def Let_def
        dest: normalize_doubling_loop_ge)
next
  case False
  then have y: "y = ucast (normalize_bit_twiddle (ucast s))"
    using assms by (simp add: bsal_memory_pool_normalize_segment_length_def Let_def)
  have m: "uint (- 1 :: 32 word) = 2 ^ 32 - 1"
    by (simp add: unsigned_minus_1_eq_mask mask_eq_exp_minus_1)
  from False have small: "uint s < 2 ^ 32"
    by (simp add: word_less_def not_less word_le_def uint_up_ucast is_up m)
  define v :: "32 word" where "v = ucast s"
  have uv: "uint v = uint s"
    unfolding v_def using small
    by (simp add: unsigned_ucast_eq take_bit_int_eq_self)
  have uy: "uint y = uint (normalize_bit_twiddle v)"
    unfolding y v_def by (simp add: uint_up_ucast is_up)
  from normalize_bit_twiddle_ge [of v] show ?thesis
  proof
    assume "normalize_bit_twiddle v = 0"
    with uy have "uint y = 0" by simp
    then show ?thesis by (simp add: uint_0_iff)
  next
    assume "v \<le> normalize_bit_twiddle v"
    with uv uy show ?thesis by (simp add: word_le_def)
  qed
qed

lemma size_after_normalization_ge:
  assumes "size_after_normalization self s = Inr y"
  shows "y = 0 \<or> s \<le> y"
  using assms
  by (auto simp: size_after_normalization_def split: option.splits if_splits
      dest: normalize_segment_length_ge)

lemma allocate_private_zero:
  "bsal_memory_pool_allocate_private cfg sys self 0 = Inr (0, self, sys)"
  by (simp add: bsal_memory_pool_allocate_private_def)

lemma allocate_private_large:
  assumes "\<not> bsal_bitmap_get_bit_uint32_t (flags pool) FLAG_DISABLED"
      and "s \<noteq> 0" and "scast (block_size pool) \<le> s"
  shows "bsal_memory_pool_allocate_private cfg sys (Some pool) s =
         Inr (fst (bsal_memory_allocate sys (unat s)),
              Some (pool\<lparr> large_blocks :=
                      insert (fst (bsal_memory_allocate sys (unat s))) (large_blocks pool) \<rparr>),
              snd (bsal_memory_allocate sys (unat s)))"
  using assms by (simp add: bsal_memory_pool_allocate_private_def split: prod.split)

text \<open>When the public allocation returns, the private one returned the same, not null.\<close>

lemma allocate_Inr_D:
  assumes "bsal_memory_pool_allocate cfg sys self s = Inr (p, self1, sys1)"
  shows "\<exists>s1. size_after_normalization self s = Inr s1 \<and> s1 \<noteq> 0 \<and> p \<noteq> 0 \<and>
              bsal_memory_pool_allocate_private cfg sys self s1 = Inr (p, self1, sys1)"
proof -
  from assms obtain s1 where n: "size_after_normalization self s = Inr s1"
    and "then_do (bsal_memory_pool_allocate_private cfg sys self s1)
           (\<lambda>(pointer, self1, sys1).
              if pointer = 0 then Inl (Exit_after_backtrace 1)
              else Inr (pointer, self1, sys1)) = Inr (p, self1, sys1)"
    by (auto simp: bsal_memory_pool_allocate_def then_do_Inr_iff)
  then have a: "bsal_memory_pool_allocate_private cfg sys self s1 = Inr (p, self1, sys1)"
    and p: "p \<noteq> 0"
    by (auto simp: then_do_Inr_iff split: if_splits)
  from a p have "s1 \<noteq> 0" by (auto simp: allocate_private_zero)
  with n a p show ?thesis by blast
qed

lemma free_all_ready_loop_eq:
  "n \<le> length ready \<Longrightarrow>
   free_all_ready_loop n ready = drop n ready @ map bsal_memory_block_free_all (take n ready)"
proof (induction n arbitrary: ready)
  case 0
  then show ?case by simp
next
  case (Suc n)
  then obtain block rest where r: "ready = block # rest" by (cases ready) auto
  with Suc.prems have "n \<le> length (rest @ [bsal_memory_block_free_all block])" by simp
  from Suc.IH [OF this] r Suc.prems show ?case by (simp add: take_map [symmetric])
qed

lemma free_all_dried_loop_eq:
  "free_all_dried_loop dried ready = ([], ready @ map bsal_memory_block_free_all dried)"
  by (induction dried arbitrary: ready) simp_all


text \<open>The normalisation with the value of \<open>maximum\<close>.\<close>

lemma normalize_maximum: "(ucast ((0 :: 32 word) - 1) :: 64 word) = 4294967295"
proof -
  have "uint (ucast (- 1 :: 32 word) :: 64 word) = uint (- 1 :: 32 word)"
    by (simp add: uint_up_ucast is_up)
  also have "\<dots> = 4294967295"
    by (simp add: unsigned_minus_1_eq_mask mask_eq_exp_minus_1)
  finally have "uint (ucast (- 1 :: 32 word) :: 64 word) = uint (4294967295 :: 64 word)"
    by simp
  then show ?thesis by (simp only: word_uint_eq_iff diff_0)
qed

lemma normalize_segment_length_unfold:
  "bsal_memory_pool_normalize_segment_length s =
     (if 4294967295 < s then normalize_doubling_loop 1 s
      else Some (ucast (normalize_bit_twiddle (ucast s))))"
  by (simp only: bsal_memory_pool_normalize_segment_length_def Let_def normalize_maximum)

text \<open>The public allocation on the pool as \<open>init\<close> leaves it.\<close>

lemma example_allocate:
  "bsal_memory_pool_allocate example_build example_system (Some example_pool) 8 =
   Inr (8192, Some example_pool_in_use, example_system_in_use)"
  by (simp add: bsal_memory_pool_allocate_def example_size_after_normalization
      example_allocate_private)

lemma example_allocate_700:
  "bsal_memory_pool_allocate example_build example_system (Some example_pool) 700 =
   Inr (8192, Some example_pool_700, example_system_in_use)"
proof -
  have "bsal_memory_pool_allocate_private example_build example_system (Some example_pool) 700 =
   Inr (8192, Some example_pool_700, example_system_in_use)"
    by (simp add: bsal_memory_pool_allocate_private_def allocate_from_blocks_def
      bsal_memory_pool_add_block_def allocate_in_current_block_def then_do_def
      system_defs example_defs flag_defs bit_simps example_pool_700_def)
  then show ?thesis
    by (simp add: bsal_memory_pool_allocate_def example_size_after_normalization)
qed


section \<open>The memory pool: what the specification says\<close>

subsection \<open>The public allocation never returns null\<close>

text \<open>
  C3.  For every pool (or none), every system and every size, \<open>bsal_memory_pool_allocate\<close>
  does not return \<open>NULL\<close>: whenever the internal allocation (called with the size that the
  normalisation step passes on) yields \<open>NULL\<close> the result is the exit with status 1 after
  the stack trace, and whenever it yields another pointer that pointer is returned with
  the pool and system the internal allocation left.
\<close>

theorem allocate_never_returns_null:
  "bsal_memory_pool_allocate cfg sys self size' \<noteq> Inr (0, self2, sys2) \<and>
   (size_after_normalization self size' = Inr size1 \<longrightarrow>
    bsal_memory_pool_allocate_private cfg sys self size1 = Inr (pointer, self1, sys1) \<longrightarrow>
    bsal_memory_pool_allocate cfg sys self size' =
      (if pointer = 0 then Inl (Exit_after_backtrace 1) else Inr (pointer, self1, sys1)))"
  by (auto simp: bsal_memory_pool_allocate_def then_do_Inr_iff split: if_splits)

theorem allocate_never_returns_null_witness:
  "size_after_normalization (Some example_pool) 8 = Inr 8 \<and>
   bsal_memory_pool_allocate_private example_build example_system (Some example_pool) 8 =
     Inr (8192, Some example_pool_in_use, example_system_in_use) \<and>
   bsal_memory_pool_allocate example_build example_system (Some example_pool) 8 =
     Inr (8192, Some example_pool_in_use, example_system_in_use) \<and>
   size_after_normalization (Some example_pool) 0 = Inr 0 \<and>
   bsal_memory_pool_allocate_private example_build example_system (Some example_pool) 0 =
     Inr (0, Some example_pool, example_system) \<and>
   bsal_memory_pool_allocate example_build example_system (Some example_pool) 0 =
     Inl (Exit_after_backtrace 1)"
proof -
  note n = example_size_after_normalization(1)
  note a = example_allocate_private
  note z = allocate_private_zero [of example_build example_system "Some example_pool"]
  from allocate_never_returns_null [THEN conjunct2, rule_format, OF n a]
    allocate_never_returns_null [THEN conjunct2, rule_format, OF n z]
  show ?thesis using n a z by simp
qed

subsection \<open>\<open>free_all\<close>\<close>

text \<open>
  C4.  For every pool (with tracking enabled or not), \<open>bsal_memory_pool_free_all\<close> resets
  the bump offset of the current block and of every ready and dried block, leaves the
  ready blocks in their order followed by the former dried blocks, leaves no dried block,
  and changes nothing else: the recycle bin, the allocated blocks, the large blocks and
  the flags are what they were.
\<close>

theorem free_all_resets_blocks_and_keeps_bins:
  "bsal_memory_pool_free_all self =
     self\<lparr> current_block := map_option bsal_memory_block_free_all (current_block self),
           ready_blocks := map bsal_memory_block_free_all (ready_blocks self @ dried_blocks self),
           dried_blocks := [] \<rparr> \<and>
   recycle_bin (bsal_memory_pool_free_all self) = recycle_bin self \<and>
   allocated_blocks (bsal_memory_pool_free_all self) = allocated_blocks self \<and>
   large_blocks (bsal_memory_pool_free_all self) = large_blocks self \<and>
   flags (bsal_memory_pool_free_all self) = flags self \<and>
   dried_blocks (bsal_memory_pool_free_all self) = [] \<and>
   map offset (ready_blocks (bsal_memory_pool_free_all self)) =
     replicate (length (ready_blocks self) + length (dried_blocks self)) 0 \<and>
   map memory (ready_blocks (bsal_memory_pool_free_all self)) =
     map memory (ready_blocks self) @ map memory (dried_blocks self) \<and>
   map_option offset (current_block (bsal_memory_pool_free_all self)) =
     map_option (\<lambda>block. 0) (current_block self)"
  by (simp add: bsal_memory_pool_free_all_def free_all_ready_loop_eq free_all_dried_loop_eq
      Let_def bsal_memory_block_free_all_def map_replicate_const comp_def replicate_add
      split: option.split)

subsection \<open>Release of a pointer the pool does not know\<close>

text \<open>
  C6.  For every pool with tracking enabled and every pointer that is neither a large
  block nor an allocated block of the pool, \<open>bsal_memory_pool_free\<close> leaves the pool as it
  was; when the pool is not disabled the call does nothing at all (the system is as it
  was, too).
\<close>

theorem free_of_untracked_pointer_is_noop:
  assumes "bsal_bitmap_get_bit_uint32_t (flags pool) FLAG_ENABLE_TRACKING"
      and "pointer \<notin> large_blocks pool"
      and "pointer \<notin> dom (allocated_blocks pool)"
    shows "fst (bsal_memory_pool_free sys (Some pool) pointer) = Some pool \<and>
           (\<not> bsal_bitmap_get_bit_uint32_t (flags pool) FLAG_DISABLED \<longrightarrow>
            bsal_memory_pool_free sys (Some pool) pointer = (Some pool, sys))"
  using assms by (auto simp: bsal_memory_pool_free_def domIff)

theorem free_of_untracked_pointer_is_noop_witness:
  "bsal_bitmap_get_bit_uint32_t (flags example_pool_in_use) FLAG_ENABLE_TRACKING \<and>
   8200 \<notin> large_blocks example_pool_in_use \<and>
   8200 \<notin> dom (allocated_blocks example_pool_in_use) \<and>
   \<not> bsal_bitmap_get_bit_uint32_t (flags example_pool_in_use) FLAG_DISABLED \<and>
   bsal_memory_pool_free example_system_in_use (Some example_pool_in_use) 8200 =
     (Some example_pool_in_use, example_system_in_use)"
proof -
  have t: "bsal_bitmap_get_bit_uint32_t (flags example_pool_in_use) FLAG_ENABLE_TRACKING"
    and d: "\<not> bsal_bitmap_get_bit_uint32_t (flags example_pool_in_use) FLAG_DISABLED"
    by (simp_all add: example_flags)
  have l: "8200 \<notin> large_blocks example_pool_in_use"
    and a: "8200 \<notin> dom (allocated_blocks example_pool_in_use)"
    by (simp_all add: example_defs)
  from free_of_untracked_pointer_is_noop [OF t l a, of example_system_in_use]
  show ?thesis using t d l a by simp
qed

subsection \<open>Large blocks\<close>

text \<open>
  C7.  For every pool that is not disabled and every size that is not 0 and that the
  comparison of the code, \<open>size >= (size_t)self->block_size\<close>, finds large (for a block
  size that is not negative: every size that is at least the block size): the internal
  allocation is the allocation of that size by the system, and the pool it leaves is the
  pool with the pointer added to the large blocks (the recycle bin, the allocated blocks
  and the memory blocks are not touched).  When the public allocation returns a pointer,
  the size passed on is not below the requested one, the pointer and the system are
  those of the system's allocation of that size, the pool is the former pool with the
  pointer among the large blocks, and a following \<open>free\<close> of the pointer calls the
  system's \<open>free\<close> and leaves the former pool with the pointer removed from the large
  blocks.
\<close>

theorem large_block_bypasses_the_pool:
  assumes enabled: "\<not> bsal_bitmap_get_bit_uint32_t (flags pool) FLAG_DISABLED"
      and nz: "size' \<noteq> 0"
      and le: "scast (block_size pool) \<le> size'"
  shows "bsal_memory_pool_allocate_private cfg sys (Some pool) size' =
           Inr (fst (bsal_memory_allocate sys (unat size')),
                Some (pool\<lparr> large_blocks :=
                        insert (fst (bsal_memory_allocate sys (unat size'))) (large_blocks pool) \<rparr>),
                snd (bsal_memory_allocate sys (unat size'))) \<and>
         (bsal_memory_pool_allocate cfg sys (Some pool) size' = Inr (pointer, self1, sys1) \<longrightarrow>
            (\<exists>size1. size_after_normalization (Some pool) size' = Inr size1 \<and> size' \<le> size1 \<and>
                     bsal_memory_allocate sys (unat size1) = (pointer, sys1)) \<and>
            pointer \<noteq> 0 \<and>
            self1 = Some (pool\<lparr> large_blocks := insert pointer (large_blocks pool) \<rparr>) \<and>
            bsal_memory_pool_free sys1 self1 pointer =
              (Some (pool\<lparr> large_blocks := large_blocks pool - {pointer} \<rparr>),
               bsal_memory_free sys1 pointer))"
proof (intro conjI impI)
  show "bsal_memory_pool_allocate_private cfg sys (Some pool) size' =
           Inr (fst (bsal_memory_allocate sys (unat size')),
                Some (pool\<lparr> large_blocks :=
                        insert (fst (bsal_memory_allocate sys (unat size'))) (large_blocks pool) \<rparr>),
                snd (bsal_memory_allocate sys (unat size')))"
    by (rule allocate_private_large [OF enabled nz le])
  assume "bsal_memory_pool_allocate cfg sys (Some pool) size' = Inr (pointer, self1, sys1)"
  from allocate_Inr_D [OF this] obtain size1 where
    n: "size_after_normalization (Some pool) size' = Inr size1" and nz1: "size1 \<noteq> 0"
    and p: "pointer \<noteq> 0"
    and a: "bsal_memory_pool_allocate_private cfg sys (Some pool) size1 = Inr (pointer, self1, sys1)"
    by blast
  from size_after_normalization_ge [OF n] nz1 have ge: "size' \<le> size1" by simp
  with le have le1: "scast (block_size pool) \<le> size1" by simp
  from a allocate_private_large [OF enabled nz1 le1, of cfg sys]
  have r: "pointer = fst (bsal_memory_allocate sys (unat size1))"
    "self1 = Some (pool\<lparr> large_blocks := insert pointer (large_blocks pool) \<rparr>)"
    "sys1 = snd (bsal_memory_allocate sys (unat size1))"
    by auto
  from n ge r show "\<exists>size1. size_after_normalization (Some pool) size' = Inr size1 \<and> size' \<le> size1 \<and>
                     bsal_memory_allocate sys (unat size1) = (pointer, sys1)"
    by auto
  show "pointer \<noteq> 0" by (rule p)
  show "self1 = Some (pool\<lparr> large_blocks := insert pointer (large_blocks pool) \<rparr>)" by (rule r)
  show "bsal_memory_pool_free sys1 self1 pointer =
          (Some (pool\<lparr> large_blocks := large_blocks pool - {pointer} \<rparr>),
           bsal_memory_free sys1 pointer)"
    using p enabled by (simp add: r(2) bsal_memory_pool_free_def)
qed

theorem large_block_bypasses_the_pool_witness:
  "\<not> bsal_bitmap_get_bit_uint32_t (flags example_pool_in_use) FLAG_DISABLED \<and>
   (2048 :: 64 word) \<noteq> 0 \<and>
   scast (block_size example_pool_in_use) \<le> (2048 :: 64 word) \<and>
   bsal_memory_pool_allocate example_build (example_system_in_use\<lparr> offers := [16384] \<rparr>)
       (Some example_pool_in_use) 2048 =
     Inr (16384, Some (example_pool_in_use\<lparr> large_blocks := {16384} \<rparr>),
          \<lparr> live = [(16384, 2048), (8192, 1024), (4096, 16)], offers = [] \<rparr>) \<and>
   bsal_memory_pool_free \<lparr> live = [(16384, 2048), (8192, 1024), (4096, 16)], offers = [] \<rparr>
       (Some (example_pool_in_use\<lparr> large_blocks := {16384} \<rparr>)) 16384 =
     (Some example_pool_in_use, example_system_in_use)"
proof -
  have d: "\<not> bsal_bitmap_get_bit_uint32_t (flags example_pool_in_use) FLAG_DISABLED"
    by (simp add: example_flags)
  have b: "(2048 :: 64 word) \<noteq> 0" "scast (block_size example_pool_in_use) \<le> (2048 :: 64 word)"
    by (simp_all add: example_defs)
  have l: "large_blocks example_pool_in_use = {}" by (simp add: example_defs)
  have a: "bsal_memory_pool_allocate example_build (example_system_in_use\<lparr> offers := [16384] \<rparr>)
       (Some example_pool_in_use) 2048 =
     Inr (16384, Some (example_pool_in_use\<lparr> large_blocks := {16384} \<rparr>),
          \<lparr> live = [(16384, 2048), (8192, 1024), (4096, 16)], offers = [] \<rparr>)"
    using d b(2)
    by (simp add: bsal_memory_pool_allocate_def example_size_after_normalization
        bsal_memory_pool_allocate_private_def l system_defs example_system_in_use_def)
  have s: "bsal_memory_free \<lparr> live = [(16384, 2048), (8192, 1024), (4096, 16)], offers = [] \<rparr> 16384
      = example_system_in_use"
    by (simp add: bsal_memory_free_def example_system_in_use_def)
  from large_block_bypasses_the_pool [OF d b, THEN conjunct2, rule_format, OF a]
  show ?thesis using d b a by (simp add: l s)
qed

text \<open>
  With the block size as an integer the claim fails.  A pool with block size 0 finds the
  size 0 large, but a request of 0 bytes returns \<open>NULL\<close> before any comparison: the system
  is not asked, nothing is recorded, and the public allocation exits.  A pool with block
  size \<open>- 1\<close> does not find the size 8 large, although \<open>- 1\<close> is below 8: the block size
  is converted to \<open>size_t\<close> and the request takes the way of the memory blocks.  The
  system, which would serve 8 bytes, is asked for two block structures and for two
  blocks of \<open>2 ^ 64 - 1\<close> bytes, which it refuses; no large block is recorded and the
  public allocation exits.
\<close>

lemma init_flags:
  "\<not> bsal_bitmap_get_bit_uint32_t (flags (bsal_memory_pool_init n)) FLAG_DISABLED"
  "bsal_bitmap_get_bit_uint32_t (flags (bsal_memory_pool_init n)) FLAG_ENABLE_TRACKING"
  "\<not> bsal_bitmap_get_bit_uint32_t (flags (bsal_memory_pool_init n))
      FLAG_ENABLE_SEGMENT_NORMALIZATION"
  by (simp_all add: bsal_memory_pool_init_def flag_defs bit_simps)

lemma unat_minus_one_64: "unat (- 1 :: 64 word) = 18446744073709551615"
  by (simp add: unsigned_minus_1_eq_mask mask_eq_exp_minus_1)

lemma block_init_refused:
  "1 < a \<Longrightarrow> bsal_memory_block_init \<lparr> live = rs, offers = a # rest \<rparr> (- 1) =
    (\<lparr> memory = 0, offset = 0, total_bytes = - 1 \<rparr>, \<lparr> live = rs, offers = rest \<rparr>)"
  by (simp add: bsal_memory_block_init_def bsal_memory_allocate_def region_free_def
      unat_minus_one_64)

lemma block_without_storage_allocate:
  "bsal_memory_block_allocate \<lparr> memory = 0, offset = 0, total_bytes = - 1 \<rparr> s =
    (0, \<lparr> memory = 0, offset = 0, total_bytes = - 1 \<rparr>)"
  by (simp add: bsal_memory_block_allocate_def)

lemma add_block_refused:
  "bsal_memory_pool_add_block example_build
       \<lparr> live = [], offers = [4096, 8192, 12288, 16384] \<rparr> pool =
    Inr (pool\<lparr> current_block := Some \<lparr> memory = 0, offset = 0, total_bytes = - 1 \<rparr> \<rparr>,
         \<lparr> live = [(4096, 16)], offers = [12288, 16384] \<rparr>)"
  "bsal_memory_pool_add_block example_build
       \<lparr> live = [(4096, 16)], offers = [12288, 16384] \<rparr> pool =
    Inr (pool\<lparr> current_block := Some \<lparr> memory = 0, offset = 0, total_bytes = - 1 \<rparr> \<rparr>,
         \<lparr> live = [(12288, 16), (4096, 16)], offers = [] \<rparr>)"
  if "ready_blocks pool = []" "block_size pool = - 1"
  using that
  by (simp_all add: bsal_memory_pool_add_block_def example_build_def bsal_memory_allocate_def
      region_free_def region_apart_def block_init_refused)

theorem large_block_of_pool_without_positive_block_size_counterexample:
  "\<not> bsal_bitmap_get_bit_uint32_t (flags (bsal_memory_pool_init 0)) FLAG_DISABLED \<and>
   sint (block_size (bsal_memory_pool_init 0)) \<le> uint (0 :: 64 word) \<and>
   bsal_memory_pool_allocate_private example_build example_system
       (Some (bsal_memory_pool_init 0)) 0 =
     Inr (0, Some (bsal_memory_pool_init 0), example_system) \<and>
   bsal_memory_pool_allocate example_build example_system (Some (bsal_memory_pool_init 0)) 0 =
     Inl (Exit_after_backtrace 1) \<and>
   \<not> bsal_bitmap_get_bit_uint32_t (flags (bsal_memory_pool_init (- 1))) FLAG_DISABLED \<and>
   sint (block_size (bsal_memory_pool_init (- 1))) \<le> uint (8 :: 64 word) \<and>
   \<not> scast (block_size (bsal_memory_pool_init (- 1))) \<le> (8 :: 64 word) \<and>
   bsal_memory_allocate \<lparr> live = [], offers = [4096, 8192, 12288, 16384] \<rparr> 8 =
     (4096, \<lparr> live = [(4096, 8)], offers = [8192, 12288, 16384] \<rparr>) \<and>
   bsal_memory_pool_allocate_private example_build
       \<lparr> live = [], offers = [4096, 8192, 12288, 16384] \<rparr>
       (Some (bsal_memory_pool_init (- 1))) 8 =
     Inr (0,
          Some ((bsal_memory_pool_init (- 1))
                  \<lparr> allocated_blocks := [0 \<mapsto> 8],
                    current_block := Some \<lparr> memory = 0, offset = 0, total_bytes = - 1 \<rparr>,
                    dried_blocks := [\<lparr> memory = 0, offset = 0, total_bytes = - 1 \<rparr>] \<rparr>),
          \<lparr> live = [(12288, 16), (4096, 16)], offers = [] \<rparr>) \<and>
   bsal_memory_pool_allocate example_build
       \<lparr> live = [], offers = [4096, 8192, 12288, 16384] \<rparr>
       (Some (bsal_memory_pool_init (- 1))) 8 =
     Inl (Exit_after_backtrace 1)"
proof -
  have z: "sint (block_size (bsal_memory_pool_init 0)) \<le> uint (0 :: 64 word)"
    "sint (block_size (bsal_memory_pool_init (- 1))) \<le> uint (8 :: 64 word)"
    by (simp_all add: bsal_memory_pool_init_def)
  have c: "\<not> scast (block_size (bsal_memory_pool_init (- 1))) \<le> (8 :: 64 word)"
    by (simp add: bsal_memory_pool_init_def word_order.extremum_unique)
  have e: "bsal_memory_pool_allocate example_build example_system
       (Some (bsal_memory_pool_init 0)) 0 = Inl (Exit_after_backtrace 1)"
    by (simp add: bsal_memory_pool_allocate_def size_after_normalization_def init_flags
        allocate_private_zero)
  have s: "bsal_memory_allocate \<lparr> live = [], offers = [4096, 8192, 12288, 16384] \<rparr> 8 =
     (4096, \<lparr> live = [(4096, 8)], offers = [8192, 12288, 16384] \<rparr>)"
    by (simp add: system_defs)
  have a: "bsal_memory_pool_allocate_private example_build
       \<lparr> live = [], offers = [4096, 8192, 12288, 16384] \<rparr>
       (Some (bsal_memory_pool_init (- 1))) 8 =
     Inr (0,
          Some ((bsal_memory_pool_init (- 1))
                  \<lparr> allocated_blocks := [0 \<mapsto> 8],
                    current_block := Some \<lparr> memory = 0, offset = 0, total_bytes = - 1 \<rparr>,
                    dried_blocks := [\<lparr> memory = 0, offset = 0, total_bytes = - 1 \<rparr>] \<rparr>),
          \<lparr> live = [(12288, 16), (4096, 16)], offers = [] \<rparr>)"
    using c init_flags [of "- 1"]
    by (simp add: bsal_memory_pool_allocate_private_def allocate_from_blocks_def
        allocate_in_current_block_def add_block_refused block_without_storage_allocate
        bsal_memory_pool_init_def)
  have x: "bsal_memory_pool_allocate example_build
       \<lparr> live = [], offers = [4096, 8192, 12288, 16384] \<rparr>
       (Some (bsal_memory_pool_init (- 1))) 8 = Inl (Exit_after_backtrace 1)"
    by (simp add: bsal_memory_pool_allocate_def size_after_normalization_def init_flags a)
  from init_flags(1) [of 0] init_flags(1) [of "- 1"] z c e s a x
    allocate_private_zero [of example_build example_system "Some (bsal_memory_pool_init 0)"]
  show ?thesis by simp
qed

subsection \<open>Recycling\<close>

text \<open>
  C8.  For every pool with tracking enabled that is not disabled, every pointer that the
  pool tracks with size \<open>s\<close> (a non-null pointer that is an allocated block recorded with
  \<open>s\<close> and not a large block; \<open>s\<close> is not zero and below the block size) and whose queue
  for \<open>s\<close> in the recycle bin is absent or empty: \<open>free\<close> puts the pointer in the queue for
  \<open>s\<close> and removes it from the allocated blocks, and the allocation of \<open>s\<close> that follows
  returns exactly this pointer; the pool is then the pool before the \<open>free\<close> but for the
  (empty or discarded) queue of \<open>s\<close>, so the pointer is an allocated block of size \<open>s\<close>
  again.  This holds for the internal allocation of \<open>s\<close>, and for the public allocation
  of every request for which the normalisation step passes \<open>s\<close> on (the request \<open>s\<close>
  itself when the flag is clear or \<open>s\<close> is its own normal form).
\<close>

theorem free_then_allocate_returns_the_pointer:
  assumes tracking: "bsal_bitmap_get_bit_uint32_t (flags pool) FLAG_ENABLE_TRACKING"
      and enabled: "\<not> bsal_bitmap_get_bit_uint32_t (flags pool) FLAG_DISABLED"
      and pointer: "pointer \<noteq> 0" "pointer \<notin> large_blocks pool"
      and tracked: "allocated_blocks pool pointer = Some (ucast size')"
      and small: "size' \<noteq> 0" "uint size' < sint (block_size pool)"
      and empty: "recycle_bin pool (ucast size') = None \<or> recycle_bin pool (ucast size') = Some []"
  shows "bsal_memory_pool_free sys (Some pool) pointer =
           (Some (pool\<lparr> recycle_bin := (recycle_bin pool)(ucast size' \<mapsto> [pointer]),
                        allocated_blocks := (allocated_blocks pool)(pointer := None) \<rparr>), sys) \<and>
         (case bsal_memory_pool_free sys (Some pool) pointer of
            (self1, sys1) \<Rightarrow> bsal_memory_pool_allocate_private cfg sys1 self1 size') =
           Inr (pointer,
                Some (pool\<lparr> recycle_bin :=
                        (recycle_bin pool)
                          (ucast size' := if discard_empty_queues cfg then None else Some []) \<rparr>),
                sys) \<and>
         (size_after_normalization (Some pool) request = Inr size' \<longrightarrow>
          (case bsal_memory_pool_free sys (Some pool) pointer of
             (self1, sys1) \<Rightarrow> bsal_memory_pool_allocate cfg sys1 self1 request) =
            Inr (pointer,
                 Some (pool\<lparr> recycle_bin :=
                         (recycle_bin pool)
                           (ucast size' := if discard_empty_queues cfg then None else Some []) \<rparr>),
                 sys))"
proof -
  let ?freed = "pool\<lparr> recycle_bin := (recycle_bin pool)(ucast size' \<mapsto> [pointer]),
                      allocated_blocks := (allocated_blocks pool)(pointer := None) \<rparr>"
  let ?again = "pool\<lparr> recycle_bin :=
                 (recycle_bin pool)
                   (ucast size' := if discard_empty_queues cfg then None else Some []) \<rparr>"
  have f: "bsal_memory_pool_free sys (Some pool) pointer = (Some ?freed, sys)"
    using tracking enabled pointer tracked empty
    by (auto simp: bsal_memory_pool_free_def)
  from small have nonneg: "0 \<le> sint (block_size pool)"
    by (meson uint_ge_0 order_trans less_imp_le)
  from small have lt: "\<not> scast (block_size pool) \<le> size'"
    by (simp add: scast_block_size_le [OF nonneg])
  have ab: "(allocated_blocks pool)(pointer \<mapsto> ucast size') = allocated_blocks pool"
    using tracked by (simp add: fun_upd_idem)
  have a: "bsal_memory_pool_allocate_private cfg sys (Some ?freed) size' = Inr (pointer, Some ?again, sys)"
    using tracking enabled small(1) lt
    by (simp add: bsal_memory_pool_allocate_private_def ab)
  have n: "size_after_normalization (Some ?freed) request = size_after_normalization (Some pool) request"
    by (simp add: size_after_normalization_def)
  show ?thesis
    using f a n pointer by (simp add: bsal_memory_pool_allocate_def)
qed

theorem free_then_allocate_returns_the_pointer_witness:
  "bsal_bitmap_get_bit_uint32_t (flags example_pool_in_use) FLAG_ENABLE_TRACKING \<and>
   \<not> bsal_bitmap_get_bit_uint32_t (flags example_pool_in_use) FLAG_DISABLED \<and>
   (8192 :: addr) \<noteq> 0 \<and> 8192 \<notin> large_blocks example_pool_in_use \<and>
   allocated_blocks example_pool_in_use 8192 = Some (ucast (8 :: 64 word)) \<and>
   (8 :: 64 word) \<noteq> 0 \<and> uint (8 :: 64 word) < sint (block_size example_pool_in_use) \<and>
   recycle_bin example_pool_in_use (ucast (8 :: 64 word)) = None \<and>
   size_after_normalization (Some example_pool_in_use) 8 = Inr 8 \<and>
   (case bsal_memory_pool_free example_system_in_use (Some example_pool_in_use) 8192 of
      (self1, sys1) \<Rightarrow> bsal_memory_pool_allocate example_build sys1 self1 8) =
     Inr (8192, Some (example_pool_in_use\<lparr> recycle_bin := [8 \<mapsto> []] \<rparr>), example_system_in_use)"
proof -
  have t: "bsal_bitmap_get_bit_uint32_t (flags example_pool_in_use) FLAG_ENABLE_TRACKING"
    and d: "\<not> bsal_bitmap_get_bit_uint32_t (flags example_pool_in_use) FLAG_DISABLED"
    by (simp_all add: example_flags)
  have p: "(8192 :: addr) \<noteq> 0" "8192 \<notin> large_blocks example_pool_in_use"
    and a: "allocated_blocks example_pool_in_use 8192 = Some (ucast (8 :: 64 word))"
    and s: "(8 :: 64 word) \<noteq> 0" "uint (8 :: 64 word) < sint (block_size example_pool_in_use)"
    and e: "recycle_bin example_pool_in_use (ucast (8 :: 64 word)) = None"
    by (simp_all add: example_defs)
  note n = example_size_after_normalization(2) [of 8]
  have r: "(recycle_bin example_pool_in_use)(8 \<mapsto> []) = [8 \<mapsto> []]"
    by (simp add: example_defs)
  from free_then_allocate_returns_the_pointer [OF t d p a s disjI1 [OF e],
      of example_system_in_use example_build 8, THEN conjunct2, THEN conjunct2, rule_format, OF n]
  show ?thesis using t d p a s e n by (simp add: r example_build_def)
qed



text \<open>
  Tracking enabled, a tracked pointer of a size below the block size and an empty queue
  do not suffice.  After \<open>init\<close>, the allocation of 8 bytes and \<open>disable\<close>, the pool still
  tracks the pointer 8192 with size 8, but \<open>free\<close> passes it to the system and \<open>allocate\<close>
  returns what the system offers, here 16384.  After \<open>init\<close>, the allocation of 700
  bytes and \<open>enable_normalization\<close>, \<open>free\<close> puts the pointer 8192 in the queue of 700,
  but the allocation of 700 bytes asks for 1024, the block size, which is a large block:
  it returns 16384 from the system and leaves 8192 in the recycle bin.
\<close>

lemma disabled_flags:
  "bsal_bitmap_get_bit_uint32_t (flags (bsal_memory_pool_disable example_pool_in_use))
     FLAG_ENABLE_TRACKING"
  "bsal_bitmap_get_bit_uint32_t (flags (bsal_memory_pool_disable example_pool_in_use))
     FLAG_DISABLED"
  "\<not> bsal_bitmap_get_bit_uint32_t (flags (bsal_memory_pool_disable example_pool_in_use))
     FLAG_ENABLE_SEGMENT_NORMALIZATION"
  by (simp_all add: bsal_memory_pool_disable_def example_defs flag_defs bit_simps)

lemma normalizing_flags:
  "bsal_bitmap_get_bit_uint32_t
     (flags (bsal_memory_pool_enable_normalization example_pool_700)) FLAG_ENABLE_TRACKING"
  "\<not> bsal_bitmap_get_bit_uint32_t
     (flags (bsal_memory_pool_enable_normalization example_pool_700)) FLAG_DISABLED"
  "bsal_bitmap_get_bit_uint32_t
     (flags (bsal_memory_pool_enable_normalization example_pool_700))
     FLAG_ENABLE_SEGMENT_NORMALIZATION"
  by (simp_all add: bsal_memory_pool_enable_normalization_def example_pool_700_def example_defs
      flag_defs bit_simps)

theorem free_then_allocate_on_disabled_or_normalizing_pool_counterexample:
  "bsal_memory_pool_allocate example_build example_system (Some example_pool) 8 =
     Inr (8192, Some example_pool_in_use, example_system_in_use) \<and>
   bsal_bitmap_get_bit_uint32_t (flags (bsal_memory_pool_disable example_pool_in_use))
     FLAG_ENABLE_TRACKING \<and>
   allocated_blocks (bsal_memory_pool_disable example_pool_in_use) 8192 =
     Some (ucast (8 :: 64 word)) \<and>
   uint (8 :: 64 word) < sint (block_size (bsal_memory_pool_disable example_pool_in_use)) \<and>
   recycle_bin (bsal_memory_pool_disable example_pool_in_use) (ucast (8 :: 64 word)) = None \<and>
   bsal_memory_pool_free (example_system_in_use\<lparr> offers := [16384] \<rparr>)
       (Some (bsal_memory_pool_disable example_pool_in_use)) 8192 =
     (Some (bsal_memory_pool_disable example_pool_in_use),
      \<lparr> live = [(4096, 16)], offers = [16384] \<rparr>) \<and>
   bsal_memory_pool_allocate example_build \<lparr> live = [(4096, 16)], offers = [16384] \<rparr>
       (Some (bsal_memory_pool_disable example_pool_in_use)) 8 =
     Inr (16384, Some (bsal_memory_pool_disable example_pool_in_use),
          \<lparr> live = [(16384, 8), (4096, 16)], offers = [] \<rparr>) \<and>
   bsal_memory_pool_allocate example_build example_system (Some example_pool) 700 =
     Inr (8192, Some example_pool_700, example_system_in_use) \<and>
   bsal_bitmap_get_bit_uint32_t
     (flags (bsal_memory_pool_enable_normalization example_pool_700)) FLAG_ENABLE_TRACKING \<and>
   \<not> bsal_bitmap_get_bit_uint32_t
     (flags (bsal_memory_pool_enable_normalization example_pool_700)) FLAG_DISABLED \<and>
   allocated_blocks (bsal_memory_pool_enable_normalization example_pool_700) 8192 =
     Some (ucast (700 :: 64 word)) \<and>
   uint (700 :: 64 word) <
     sint (block_size (bsal_memory_pool_enable_normalization example_pool_700)) \<and>
   recycle_bin (bsal_memory_pool_enable_normalization example_pool_700)
     (ucast (700 :: 64 word)) = None \<and>
   bsal_memory_pool_free (example_system_in_use\<lparr> offers := [16384] \<rparr>)
       (Some (bsal_memory_pool_enable_normalization example_pool_700)) 8192 =
     (Some (bsal_memory_pool_enable_normalization example_pool_700
              \<lparr> recycle_bin := [700 \<mapsto> [8192]], allocated_blocks := Map.empty \<rparr>),
      example_system_in_use\<lparr> offers := [16384] \<rparr>) \<and>
   bsal_memory_pool_allocate example_build (example_system_in_use\<lparr> offers := [16384] \<rparr>)
       (Some (bsal_memory_pool_enable_normalization example_pool_700
                \<lparr> recycle_bin := [700 \<mapsto> [8192]], allocated_blocks := Map.empty \<rparr>)) 700 =
     Inr (16384,
          Some (bsal_memory_pool_enable_normalization example_pool_700
                  \<lparr> recycle_bin := [700 \<mapsto> [8192]], allocated_blocks := Map.empty,
                    large_blocks := {16384} \<rparr>),
          \<lparr> live = [(16384, 1024), (8192, 1024), (4096, 16)], offers = [] \<rparr>)"
proof -
  let ?d = "bsal_memory_pool_disable example_pool_in_use"
  let ?n = "bsal_memory_pool_enable_normalization example_pool_700"
  let ?f = "?n\<lparr> recycle_bin := [700 \<mapsto> [8192]], allocated_blocks := Map.empty \<rparr>"
  have d: "allocated_blocks ?d 8192 = Some (ucast (8 :: 64 word))"
    "uint (8 :: 64 word) < sint (block_size ?d)"
    "recycle_bin ?d (ucast (8 :: 64 word)) = None"
    by (simp_all add: bsal_memory_pool_disable_def example_defs)
  have df: "bsal_memory_pool_free (example_system_in_use\<lparr> offers := [16384] \<rparr>) (Some ?d) 8192 =
     (Some ?d, \<lparr> live = [(4096, 16)], offers = [16384] \<rparr>)"
    by (simp add: bsal_memory_pool_free_def disabled_flags bsal_memory_free_def
        example_system_in_use_def)
  have da: "bsal_memory_pool_allocate example_build \<lparr> live = [(4096, 16)], offers = [16384] \<rparr>
       (Some ?d) 8 =
     Inr (16384, Some ?d, \<lparr> live = [(16384, 8), (4096, 16)], offers = [] \<rparr>)"
    by (simp add: bsal_memory_pool_allocate_def size_after_normalization_def disabled_flags
        bsal_memory_pool_allocate_private_def system_defs)
  have n: "allocated_blocks ?n 8192 = Some (ucast (700 :: 64 word))"
    "uint (700 :: 64 word) < sint (block_size ?n)"
    "recycle_bin ?n (ucast (700 :: 64 word)) = None"
    by (simp_all add: bsal_memory_pool_enable_normalization_def example_pool_700_def example_defs)
  have nf: "bsal_memory_pool_free (example_system_in_use\<lparr> offers := [16384] \<rparr>) (Some ?n) 8192 =
     (Some ?f, example_system_in_use\<lparr> offers := [16384] \<rparr>)"
    using normalizing_flags
    by (simp add: bsal_memory_pool_free_def)
      (simp add: bsal_memory_pool_enable_normalization_def example_pool_700_def example_defs)
  have r: "bsal_memory_pool_normalize_segment_length 700 = Some 1024"
    by (simp add: normalize_segment_length_unfold normalize_bit_twiddle_def Let_def)
  have ff: "flags ?f = flags ?n" "block_size ?f = 1024" "large_blocks ?f = {}"
    by (simp_all add: bsal_memory_pool_enable_normalization_def example_pool_700_def example_defs)
  have na: "bsal_memory_pool_allocate example_build (example_system_in_use\<lparr> offers := [16384] \<rparr>)
       (Some ?f) 700 =
     Inr (16384, Some (?f\<lparr> large_blocks := {16384} \<rparr>),
          \<lparr> live = [(16384, 1024), (8192, 1024), (4096, 16)], offers = [] \<rparr>)"
    using normalizing_flags
    by (simp add: bsal_memory_pool_allocate_def size_after_normalization_def r ff
        bsal_memory_pool_allocate_private_def system_defs example_system_in_use_def)
  from example_allocate example_allocate_700 disabled_flags(1) normalizing_flags(1,2)
    d df da n nf na
  show ?thesis by simp
qed

subsection \<open>Normalisation\<close>

text \<open>Once the doubled value has wrapped to zero the loop never ends.\<close>

lemma normalize_doubling_loop_zero:
  assumes "normalize_doubling_loop r s = Some y"
  shows "r = 0 \<longrightarrow> s = 0"
  by (rule normalize_doubling_loop.raw_induct [OF _ assms]) (auto simp: word_gt_0 split: if_splits)

lemma normalize_doubling_loop_zero_None:
  "s \<noteq> 0 \<Longrightarrow> normalize_doubling_loop 0 s = None"
  using normalize_doubling_loop_zero [of 0 s] by (cases "normalize_doubling_loop 0 s") auto

lemma two_power_64: "(2 :: 64 word) ^ 64 = 0"
proof -
  have "LENGTH(64) = 64" by simp
  with word_exp_length_eq_0 [where 'a = 64] show ?thesis by (simp only:)
qed

lemma unat_two_power_64:
  assumes "n < 64"
  shows "unat ((2 :: 64 word) ^ n) = 2 ^ n"
proof -
  have L: "LENGTH(64) = 64" by simp
  have "(2 :: 64 word) ^ n = of_nat (2 ^ n)" by simp
  then have "unat ((2 :: 64 word) ^ n) = 2 ^ n mod 2 ^ LENGTH(64)"
    by (simp only: unat_of_nat)
  moreover have "(2 :: nat) ^ n < 2 ^ 64"
    using assms by (intro power_strict_increasing) simp_all
  ultimately show ?thesis by (simp only: L mod_less)
qed

lemma two_power_mono_64:
  assumes "n \<le> m" "m < 64"
  shows "(2 :: 64 word) ^ n \<le> 2 ^ m"
  using assms by (simp add: word_le_nat_alt unat_two_power_64)

lemma normalize_doubling_loop_diverges_from:
  assumes big: "2 ^ 63 < (s :: 64 word)"
  shows "k \<le> 64 \<Longrightarrow> normalize_doubling_loop (2 ^ (64 - k)) s = None"
proof (induction k)
  case 0
  from big have "s \<noteq> 0" by auto
  then have "normalize_doubling_loop 0 s = None" by (rule normalize_doubling_loop_zero_None)
  then show ?case by (simp only: diff_zero two_power_64)
next
  case (Suc k)
  then have k: "k \<le> 64" and lt: "64 - Suc k < 64" by simp_all
  have "(2 :: 64 word) ^ (64 - Suc k) \<le> 2 ^ 63"
    using lt by (intro two_power_mono_64) simp_all
  then have "(2 :: 64 word) ^ (64 - Suc k) < s" using big by (rule le_less_trans)
  moreover have "(2 :: 64 word) ^ (64 - Suc k) * 2 = 2 ^ (64 - k)"
  proof -
    from Suc.prems have "64 - k = Suc (64 - Suc k)" by simp
    then show ?thesis by (simp only: power_Suc mult.commute)
  qed
  ultimately show ?case
    using Suc.IH [OF k] by (subst normalize_doubling_loop.simps) (simp only: if_True)
qed

text \<open>For every size above \<open>2 ^ 63\<close> the normalisation never returns.\<close>

lemma normalize_doubling_loop_diverges:
  "2 ^ 63 < (s :: 64 word) \<Longrightarrow> normalize_doubling_loop 1 s = None"
  using normalize_doubling_loop_diverges_from [of s 64] by simp

text \<open>The bit-twiddling branch yields the power of two with the size of its argument less one.\<close>

lemma smeared_start: "smeared 1 x x"
  unfolding smeared_def
proof (intro allI iffI)
  fix i assume "bit x i"
  then show "\<exists>j. i \<le> j \<and> j < i + 1 \<and> bit x j" by (intro exI [of _ i]) simp
next
  fix i assume "\<exists>j. i \<le> j \<and> j < i + 1 \<and> bit x j"
  then obtain j where "i \<le> j" "j < i + 1" "bit x j" by blast
  moreover then have "j = i" by simp
  ultimately show "bit x i" by simp
qed

lemma smeared_step:
  assumes "smeared d x y"
  shows "smeared (2 * d) x (y OR drop_bit d y)"
  unfolding smeared_def
proof (intro allI iffI)
  fix i assume "bit (y OR drop_bit d y) i"
  then have "bit y i \<or> bit y (d + i)" by (simp add: bit_or_iff bit_drop_bit_eq)
  then show "\<exists>j. i \<le> j \<and> j < i + 2 * d \<and> bit x j"
  proof
    assume "bit y i"
    with assms obtain j where "i \<le> j" "j < i + d" "bit x j" unfolding smeared_def by blast
    then show ?thesis by (intro exI [of _ j]) simp
  next
    assume "bit y (d + i)"
    with assms obtain j where "d + i \<le> j" "j < d + i + d" "bit x j"
      unfolding smeared_def by blast
    then show ?thesis by (intro exI [of _ j]) simp
  qed
next
  fix i assume "\<exists>j. i \<le> j \<and> j < i + 2 * d \<and> bit x j"
  then obtain j where j: "i \<le> j" "j < i + 2 * d" "bit x j" by blast
  show "bit (y OR drop_bit d y) i"
  proof (cases "j < i + d")
    case True
    with j assms have "bit y i" unfolding smeared_def by blast
    then show ?thesis by (simp add: bit_or_iff)
  next
    case False
    with j have "d + i \<le> j" "j < d + i + d" by simp_all
    with j(3) assms have "bit y (d + i)" unfolding smeared_def by blast
    moreover from j(3) have "j < 32" by (auto dest: bit_imp_le_length)
    ultimately show ?thesis by (simp add: bit_or_iff bit_drop_bit_eq)
  qed
qed

lemma normalize_bit_twiddle_smeared:
  "\<exists>y. smeared 32 (v - 1) y \<and> normalize_bit_twiddle v = y + 1"
proof -
  note s1 = smeared_step [OF smeared_start [of "v - 1"]]
  note s2 = smeared_step [OF s1]
  note s3 = smeared_step [OF s2]
  note s4 = smeared_step [OF s3]
  note s5 = smeared_step [OF s4]
  from s5 show ?thesis
    by (intro exI conjI) (simp_all add: normalize_bit_twiddle_def Let_def)
qed

lemma upper_bits_clear:
  fixes x :: "32 word"
  assumes "\<forall>j\<ge>n. \<not> bit x j"
  shows "uint x < 2 ^ n"
proof -
  have "drop_bit n x = 0"
    by (rule bit_eqI) (use assms in \<open>simp add: bit_drop_bit_eq\<close>)
  then have "take_bit n x = x" by (simp add: take_bit_eq_self_iff_drop_bit_eq_0)
  then have "uint x = uint (take_bit n x)" by simp
  also have "\<dots> = take_bit n (uint x)" by (simp only: unsigned_take_bit_eq)
  also have "\<dots> < 2 ^ n" by simp
  finally show ?thesis .
qed

lemma bit_lower_bound:
  fixes x :: "32 word"
  assumes "bit x j"
  shows "2 ^ j \<le> uint x"
proof (rule ccontr)
  assume "\<not> 2 ^ j \<le> uint x"
  then have "uint x < 2 ^ j" by simp
  then have "take_bit j (uint x) = uint x" by (simp add: take_bit_int_eq_self)
  then have "\<not> bit (take_bit j (uint x)) j \<longrightarrow> \<not> bit (uint x) j" by simp
  then have "\<not> bit (uint x) j" by (simp add: bit_take_bit_iff)
  moreover from assms have "j < 32" by (auto dest: bit_imp_le_length)
  ultimately show False using assms by (simp add: bit_uint_iff)
qed

lemma smeared_mask:
  fixes x y :: "32 word"
  assumes s: "smeared 32 x y"
    and up: "uint x < 2 ^ n"
    and low: "n = 0 \<or> 2 ^ (n - 1) \<le> uint x"
  shows "y = mask n"
proof (rule bit_eqI)
  fix i
  show "bit y i \<longleftrightarrow> bit (mask n :: 32 word) i"
  proof
    assume "bit y i"
    with s obtain j where j: "i \<le> j" "bit x j" unfolding smeared_def by blast
    from j(2) have "2 ^ j \<le> uint x" by (rule bit_lower_bound)
    then have "(2 :: int) ^ j < 2 ^ n" using up by (rule le_less_trans)
    then have "j < n" by (simp only: power_strict_increasing_iff one_less_numeral_iff semiring_norm)
    moreover from \<open>bit y i\<close> have "i < 32" by (auto dest: bit_imp_le_length)
    ultimately show "bit (mask n :: 32 word) i" using j(1) by (simp add: bit_mask_iff)
  next
    assume "bit (mask n :: 32 word) i"
    then have i: "i < 32" "i < n" by (simp_all add: bit_mask_iff)
    with low have "2 ^ (n - 1) \<le> uint x" by auto
    have "\<exists>j\<ge>n - 1. bit x j"
    proof (rule ccontr)
      assume "\<not> (\<exists>j\<ge>n - 1. bit x j)"
      then have "uint x < 2 ^ (n - 1)" by (intro upper_bits_clear) simp
      with \<open>2 ^ (n - 1) \<le> uint x\<close> show False by simp
    qed
    then obtain j where j: "n - 1 \<le> j" "bit x j" by blast
    from j(2) have "j < 32" by (auto dest: bit_imp_le_length)
    with i j(1) have "i \<le> j" "j < i + 32" by simp_all
    with j(2) s show "bit y i" unfolding smeared_def by blast
  qed
qed

lemma normalize_bit_twiddle_mask:
  assumes "uint (v - 1) < 2 ^ n" "n = 0 \<or> 2 ^ (n - 1) \<le> uint (v - 1)"
  shows "normalize_bit_twiddle v = 2 ^ n"
proof -
  from normalize_bit_twiddle_smeared [of v] obtain y where
    y: "smeared 32 (v - 1) y" "normalize_bit_twiddle v = y + 1" by blast
  from smeared_mask [OF y(1) assms] y(2) show ?thesis by (simp add: inc_mask_eq_exp)
qed

lemma least_power_of_two:
  fixes m :: int
  assumes "m \<le> 2 ^ b"
  shows "\<exists>n\<le>b. m \<le> 2 ^ n \<and> (n = 0 \<or> 2 ^ (n - 1) < m)"
proof -
  define n where "n = (LEAST n. m \<le> 2 ^ n)"
  from assms have le: "m \<le> 2 ^ n" unfolding n_def by (rule LeastI)
  from assms have nb: "n \<le> b" unfolding n_def by (rule Least_le)
  have "n = 0 \<or> 2 ^ (n - 1) < m"
  proof (cases n)
    case 0
    then show ?thesis by simp
  next
    case (Suc k)
    have "\<not> m \<le> 2 ^ k"
    proof
      assume "m \<le> 2 ^ k"
      then have "n \<le> k" unfolding n_def by (rule Least_le)
      with Suc show False by simp
    qed
    with Suc show ?thesis by simp
  qed
  with le nb show ?thesis by blast
qed

lemma uint_two_power_32:
  assumes "n < 32"
  shows "uint ((2 :: 32 word) ^ n) = 2 ^ n"
proof -
  have "(2 :: int) ^ n < 2 ^ 32"
    using assms by (intro power_strict_increasing) simp_all
  then have "take_bit 32 ((2 :: int) ^ n) = 2 ^ n"
    by (intro take_bit_int_eq_self) simp_all
  moreover have "(2 :: 32 word) ^ n = word_of_int (2 ^ n)" by simp
  ultimately show ?thesis by (simp only: uint_word_of_int_eq len_num1 len_bit0 mult_2 one_add_one)
      simp
qed

lemma normalize_bit_twiddle_power:
  assumes "v \<noteq> 0"
  shows "\<exists>n\<le>32. normalize_bit_twiddle v = 2 ^ n \<and> uint v \<le> 2 ^ n \<and>
           (n = 0 \<or> 2 ^ (n - 1) < uint v)"
proof -
  have "uint v < 2 ^ 32" using uint_bounded [of v] by simp
  then have "uint v \<le> 2 ^ 32" by simp
  from least_power_of_two [OF this] obtain n where
    n: "n \<le> 32" "uint v \<le> 2 ^ n" "n = 0 \<or> 2 ^ (n - 1) < uint v" by blast
  from assms have "1 \<le> v" by (simp add: word_le_def word_neq_0_conv word_less_def)
  then have u: "uint (v - 1) = uint v - 1" by (simp add: uint_minus_simple_alt)
  from n(2) u have a: "uint (v - 1) < 2 ^ n" by simp
  from n(3) u have b: "n = 0 \<or> 2 ^ (n - 1) \<le> uint (v - 1)" by auto
  from normalize_bit_twiddle_mask [OF a b] n show ?thesis by blast
qed

lemma uint_two_power_64:
  assumes "n < 64"
  shows "uint ((2 :: 64 word) ^ n) = 2 ^ n"
proof -
  have "uint ((2 :: 64 word) ^ n) = int (unat ((2 :: 64 word) ^ n))" by simp
  also have "\<dots> = int (2 ^ n)" by (simp only: unat_two_power_64 [OF assms])
  finally show ?thesis by simp
qed

lemma ucast_two_power_32:
  assumes "n < 32"
  shows "(ucast ((2 :: 32 word) ^ n) :: 64 word) = 2 ^ n"
proof -
  have "uint (ucast ((2 :: 32 word) ^ n) :: 64 word) = uint ((2 :: 32 word) ^ n)"
    by (simp add: uint_up_ucast is_up)
  also have "\<dots> = 2 ^ n" by (rule uint_two_power_32 [OF assms])
  also have "\<dots> = uint ((2 :: 64 word) ^ n)"
    using assms by (intro uint_two_power_64 [symmetric]) simp
  finally show ?thesis by (simp only: word_uint_eq_iff)
qed

lemma uint_ucast_small:
  fixes s :: "64 word"
  assumes "uint s < 2 ^ 32"
  shows "uint (ucast s :: 32 word) = uint s"
proof -
  have "uint (ucast s :: 32 word) = take_bit 32 (uint s)"
    by (simp add: unsigned_ucast_eq)
  also have "\<dots> = uint s" using assms by (intro take_bit_int_eq_self) simp_all
  finally show ?thesis .
qed

lemma normalize_segment_length_twiddle:
  fixes s :: "64 word"
  assumes "s \<noteq> 0" "uint s < 2 ^ 32"
  shows "\<exists>n\<le>32. bsal_memory_pool_normalize_segment_length s =
             Some (ucast ((2 :: 32 word) ^ n)) \<and>
           uint s \<le> 2 ^ n \<and> (n = 0 \<or> 2 ^ (n - 1) < uint s)"
proof -
  have u: "uint (ucast s :: 32 word) = uint s" by (rule uint_ucast_small [OF assms(2)])
  from assms(1) have "uint s \<noteq> 0" by (simp add: uint_0_iff)
  with u have "uint (ucast s :: 32 word) \<noteq> 0" by simp
  then have v: "(ucast s :: 32 word) \<noteq> 0" by (simp add: uint_0_iff)
  have "uint (4294967295 :: 64 word) = 4294967295" by simp
  with assms(2) have "\<not> 4294967295 < s" by (simp add: word_less_def)
  then have "bsal_memory_pool_normalize_segment_length s =
      Some (ucast (normalize_bit_twiddle (ucast s)))"
    by (simp only: normalize_segment_length_unfold if_False)
  with normalize_bit_twiddle_power [OF v] u show ?thesis by auto
qed

text \<open>
  From 1 to \<open>2 ^ 31\<close> the result is the smallest power of two that is not below the size.
\<close>

lemma normalize_segment_length_small:
  fixes s :: "64 word"
  assumes "s \<noteq> 0" "uint s \<le> 2 ^ 31"
  shows "\<exists>n\<le>31. bsal_memory_pool_normalize_segment_length s = Some (2 ^ n) \<and>
           uint s \<le> 2 ^ n \<and> (n = 0 \<or> 2 ^ (n - 1) < uint s)"
proof -
  have "(2 :: int) ^ 31 < 2 ^ 32" by simp
  with assms(2) have "uint s < 2 ^ 32" by (rule le_less_trans)
  from normalize_segment_length_twiddle [OF assms(1) this] obtain n where
    n: "n \<le> 32" "bsal_memory_pool_normalize_segment_length s = Some (ucast ((2 :: 32 word) ^ n))"
    "uint s \<le> 2 ^ n" "n = 0 \<or> 2 ^ (n - 1) < uint s" by blast
  have "n \<noteq> 32"
  proof
    assume "n = 32"
    with n(4) have "2 ^ 31 < uint s" by simp
    with assms(2) show False by simp
  qed
  with n(1) have "n < 32" by simp
  then have "n \<le> 31" by simp
  with n ucast_two_power_32 [OF \<open>n < 32\<close>] show ?thesis by auto
qed

text \<open>
  Above \<open>2 ^ 31\<close> and below \<open>2 ^ 32\<close> the result is 0: the increment wraps in 32 bits.
\<close>

lemma normalize_segment_length_wraps:
  fixes s :: "64 word"
  assumes "2 ^ 31 < uint s" "uint s < 2 ^ 32"
  shows "bsal_memory_pool_normalize_segment_length s = Some 0"
proof -
  from assms(1) have "s \<noteq> 0" by auto
  from normalize_segment_length_twiddle [OF this assms(2)] obtain n where
    n: "n \<le> 32" "bsal_memory_pool_normalize_segment_length s = Some (ucast ((2 :: 32 word) ^ n))"
    "uint s \<le> 2 ^ n" by blast
  from assms(1) n(3) have "(2 :: int) ^ 31 < 2 ^ n" by (rule less_le_trans)
  then have "31 < n"
    by (simp only: power_strict_increasing_iff one_less_numeral_iff semiring_norm)
  with n(1) have "n = 32" by simp
  moreover have "(2 :: 32 word) ^ 32 = 0"
  proof -
    have "LENGTH(32) = 32" by simp
    with word_exp_length_eq_0 [where 'a = 32] show ?thesis by (simp only:)
  qed
  ultimately show ?thesis using n(2) by simp
qed

text \<open>The doubling loop, started below the smallest power of two that is not below the size.\<close>

lemma normalize_doubling_loop_reaches:
  fixes s :: "64 word"
  assumes n: "n < 64" and up: "uint s \<le> 2 ^ n" and low: "n = 0 \<or> 2 ^ (n - 1) < uint s"
  shows "j \<le> n \<Longrightarrow> normalize_doubling_loop (2 ^ j) s = Some (2 ^ n)"
proof (induction "n - j" arbitrary: j)
  case 0
  then have "j = n" by simp
  with up n have "\<not> (2 :: 64 word) ^ j < s"
    by (simp add: word_less_def uint_two_power_64)
  then show ?case using \<open>j = n\<close> by (subst normalize_doubling_loop.simps) simp
next
  case (Suc d)
  then have j: "j < n" "Suc j \<le> n" "d = n - Suc j" by simp_all
  with low have "2 ^ (n - 1) < uint s" by auto
  moreover have "(2 :: int) ^ j \<le> 2 ^ (n - 1)"
    using j(1) by (intro power_increasing) simp_all
  ultimately have "2 ^ j < uint s" by (rule le_less_trans [rotated])
  moreover from j(1) n have "j < 64" by simp
  ultimately have "(2 :: 64 word) ^ j < s" by (simp add: word_less_def uint_two_power_64)
  moreover have "normalize_doubling_loop (2 ^ Suc j) s = Some (2 ^ n)"
    by (rule Suc.hyps(1) [OF j(3) j(2)])
  ultimately show ?case
    by (subst normalize_doubling_loop.simps) (simp add: mult.commute)
qed

text \<open>
  From \<open>2 ^ 32\<close> to \<open>2 ^ 63\<close> the result is the smallest power of two that is not below
  the size.
\<close>

lemma normalize_segment_length_large:
  fixes s :: "64 word"
  assumes "2 ^ 32 \<le> uint s" "uint s \<le> 2 ^ 63"
  shows "\<exists>n\<le>63. bsal_memory_pool_normalize_segment_length s = Some (2 ^ n) \<and>
           uint s \<le> 2 ^ n \<and> 2 ^ (n - 1) < uint s"
proof -
  from least_power_of_two [OF assms(2)] obtain n where
    n: "n \<le> 63" "uint s \<le> 2 ^ n" "n = 0 \<or> 2 ^ (n - 1) < uint s" by blast
  have "n \<noteq> 0"
  proof
    assume "n = 0"
    with n(2) have "uint s \<le> 1" by simp
    moreover have "(1 :: int) < 2 ^ 32" by simp
    ultimately show False using assms(1) by linarith
  qed
  with n(3) have low: "2 ^ (n - 1) < uint s" by simp
  from n(1) have "n < 64" by simp
  from normalize_doubling_loop_reaches [OF this n(2,3), of 0]
  have "normalize_doubling_loop 1 s = Some (2 ^ n)" by simp
  moreover have "4294967295 < s"
  proof -
    have "uint (4294967295 :: 64 word) = 4294967295" by simp
    moreover have "(4294967295 :: int) < 2 ^ 32" by simp
    ultimately show ?thesis using assms(1) by (simp add: word_less_def)
  qed
  ultimately have "bsal_memory_pool_normalize_segment_length s = Some (2 ^ n)"
    by (simp only: normalize_segment_length_unfold if_True)
  with n(1,2) low show ?thesis by blast
qed

text \<open>Above \<open>2 ^ 63\<close> the normalisation never returns.\<close>

lemma normalize_segment_length_diverges:
  fixes s :: "64 word"
  assumes "2 ^ 63 < s"
  shows "bsal_memory_pool_normalize_segment_length s = None"
proof -
  have "(4294967295 :: 64 word) \<le> 2 ^ 63" by (simp add: word_le_def)
  then have "4294967295 < s" using assms by (rule le_less_trans)
  then show ?thesis
    by (simp only: normalize_segment_length_unfold if_True
        normalize_doubling_loop_diverges [OF assms])
qed

text \<open>
  C5.  The claim (the result is the smallest power of two that is not below the size, for
  every size) does not hold of the code.  For the size \<open>2 ^ 31 + 1\<close>, which is
  representable in 32 bits, the bit-twiddling branch wraps to 0 where the smallest power
  of two is \<open>2 ^ 32\<close>, and the allocation in a normalising pool then asks for 0 bytes and
  exits, while the same request in a pool that does not normalise is served.  The size 0
  yields 0, and for the size \<open>2 ^ 63 + 1\<close> the doubling loop never ends.  On other sizes
  the code does yield the power of two: 5 gives 8, \<open>2 ^ 31\<close> gives \<open>2 ^ 31\<close>, and
  \<open>2 ^ 32 + 1\<close> gives \<open>2 ^ 33\<close>.  In general (lemmas \<open>normalize_segment_length_small\<close>,
  \<open>normalize_segment_length_wraps\<close>, \<open>normalize_segment_length_large\<close> and
  \<open>normalize_segment_length_diverges\<close>) the result is the smallest power of two that is
  not below the size from 1 to \<open>2 ^ 31\<close> and from \<open>2 ^ 32\<close> to \<open>2 ^ 63\<close>, it is 0 between
  \<open>2 ^ 31\<close> and \<open>2 ^ 32\<close>, and there is none above \<open>2 ^ 63\<close>.
\<close>

theorem normalize_segment_length_wraps_to_zero:
  "bsal_memory_pool_normalize_segment_length 2147483649 = Some 0 \<and>
   bsal_memory_pool_allocate example_build \<lparr> live = [], offers = [4096] \<rparr>
       (Some (bsal_memory_pool_enable_normalization example_pool)) 2147483649 =
     Inl (Exit_after_backtrace 1) \<and>
   bsal_memory_pool_allocate example_build \<lparr> live = [], offers = [4096] \<rparr>
       (Some example_pool) 2147483649 =
     Inr (4096, Some (example_pool\<lparr> large_blocks := {4096} \<rparr>),
          \<lparr> live = [(4096, 2147483649)], offers = [] \<rparr>) \<and>
   bsal_memory_pool_normalize_segment_length 0 = Some 0 \<and>
   bsal_memory_pool_normalize_segment_length 9223372036854775809 = None \<and>
   bsal_memory_pool_normalize_segment_length 5 = Some 8 \<and>
   bsal_memory_pool_normalize_segment_length 2147483648 = Some 2147483648 \<and>
   bsal_memory_pool_normalize_segment_length 4294967297 = Some 8589934592"
proof -
  have n: "bsal_memory_pool_normalize_segment_length 2147483649 = Some 0"
    by (simp add: normalize_segment_length_unfold normalize_bit_twiddle_def Let_def)
  have f: "bsal_bitmap_get_bit_uint32_t
             (flags (bsal_memory_pool_enable_normalization example_pool))
             FLAG_ENABLE_SEGMENT_NORMALIZATION"
    by (simp add: bsal_memory_pool_enable_normalization_def example_defs flag_defs bit_simps)
  have a: "bsal_memory_pool_allocate example_build \<lparr> live = [], offers = [4096] \<rparr>
       (Some (bsal_memory_pool_enable_normalization example_pool)) 2147483649 =
     Inl (Exit_after_backtrace 1)"
    by (simp add: bsal_memory_pool_allocate_def size_after_normalization_def f n
        allocate_private_zero)
  have b: "bsal_memory_pool_allocate example_build \<lparr> live = [], offers = [4096] \<rparr>
       (Some example_pool) 2147483649 =
     Inr (4096, Some (example_pool\<lparr> large_blocks := {4096} \<rparr>),
          \<lparr> live = [(4096, 2147483649)], offers = [] \<rparr>)"
    by (simp add: bsal_memory_pool_allocate_def example_size_after_normalization
        bsal_memory_pool_allocate_private_def example_flags system_defs)
      (simp add: example_defs)
  have z: "bsal_memory_pool_normalize_segment_length 0 = Some 0"
    "bsal_memory_pool_normalize_segment_length 5 = Some 8"
    "bsal_memory_pool_normalize_segment_length 2147483648 = Some 2147483648"
    by (simp_all add: normalize_segment_length_unfold normalize_bit_twiddle_def Let_def)
  have d: "bsal_memory_pool_normalize_segment_length 9223372036854775809 = None"
    by (simp add: normalize_segment_length_unfold normalize_doubling_loop_diverges)
  have e: "bsal_memory_pool_normalize_segment_length 4294967297 = Some 8589934592"
    by (simp add: normalize_segment_length_unfold normalize_doubling_loop.simps)
  from n a b z d e show ?thesis by simp
qed


section \<open>The memory pool: pointers in use and recycled pointers\<close>

subsection \<open>Live regions\<close>

lemma region_apart_sym:
  "region_apart a n (b, m) \<longleftrightarrow> region_apart b m (a, n)"
  by (auto simp: region_apart_def)

lemma region_free_apart:
  "region_free rs a n \<Longrightarrow> r \<in> set rs \<Longrightarrow> region_apart a n r"
  by (auto simp: region_free_def list_all_iff)

lemma regions_apart_pairwise:
  "regions_apart rs \<Longrightarrow> r1 \<in> set rs \<Longrightarrow> r2 \<in> set rs \<Longrightarrow> r1 \<noteq> r2 \<Longrightarrow>
   region_apart (fst r1) (snd r1) r2"
proof (induction rs)
  case Nil
  then show ?case by simp
next
  case (Cons r rs)
  show ?case
  proof (cases "r1 = r")
    case True
    with Cons.prems have "r2 \<in> set rs" by auto
    with Cons.prems True show ?thesis by (auto dest: region_free_apart)
  next
    case False
    then have r1: "r1 \<in> set rs" using Cons.prems by auto
    show ?thesis
    proof (cases "r2 = r")
      case True
      from Cons.prems r1 have "region_apart (fst r) (snd r) r1"
        by (auto dest: region_free_apart)
      then show ?thesis using True region_apart_sym [of "fst r" "snd r" "fst r1" "snd r1"] by simp
    next
      case False
      with Cons r1 show ?thesis by auto
    qed
  qed
qed



lemma regions_apart_fst_eq:
  assumes "regions_apart rs" "r1 \<in> set rs" "r2 \<in> set rs" "fst r1 = fst r2"
  shows "r1 = r2"
proof (rule ccontr)
  assume "r1 \<noteq> r2"
  from regions_apart_pairwise [OF assms(1-3) this] assms(4)
  show False by (cases r2) (auto simp: region_apart_def)
qed



subsection \<open>The state of a pool\<close>










subsection \<open>The recycle bin\<close>




subsection \<open>The blocks\<close>







lemma pool_blocks_simps [simp]:
  "pool_blocks (self\<lparr> allocated_blocks := al \<rparr>) = pool_blocks self"
  "pool_blocks (self\<lparr> recycle_bin := bin \<rparr>) = pool_blocks self"
  "pool_blocks (self\<lparr> large_blocks := lg \<rparr>) = pool_blocks self"
  by (simp_all add: pool_blocks_def)






subsection \<open>\<open>init\<close>, \<open>allocate\<close> and \<open>free\<close> keep the state\<close>
















subsection \<open>Every tracked pointer is in use or recycled, never both\<close>













section \<open>The red-black tree (core/structures/ordered/red_black_tree.c, src/unnamed/part_002)\<close>

text \<open>
  \<open>struct bsal_red_black_node\<close> is not part of the sources at hand; its fields are those
  the tree's functions read and write.  A node lives at an address; \<open>key\<close> and
  \<open>node_value\<close> (the field \<open>value\<close>) point to the node's copies of the key and the value.
\<close>

datatype bsal_color = BSAL_COLOR_RED | BSAL_COLOR_BLACK

record bsal_red_black_node =
  key :: addr
  node_value :: addr
  left_node :: addr
  right_node :: addr
  parent :: addr
  color :: bsal_color

text \<open>
  \<open>struct bsal_red_black_tree\<close> together with the nodes in memory.  \<open>tree_size\<close> is the
  field \<open>size\<close>, an \<open>int\<close> as \<open>key_size\<close> and \<open>value_size\<close> are.  \<open>compare\<close> is the function the field \<open>compare\<close> points to
  (\<open>memcmp\<close> over \<open>key_size\<close> bytes or the comparison of two \<open>uint64_t\<close>), applied to two
  pointers to keys, as it reads the keys in memory; \<open>delete\<close> and \<open>get\<close> write no key.
\<close>

record bsal_red_black_tree =
  root :: addr
  tree_size :: "32 word"
  key_size :: "32 word"
  value_size :: "32 word"
  compare :: "addr \<Rightarrow> addr \<Rightarrow> int"
  cached_last_node :: addr
  cached_lowest_node :: addr
  nodes :: "addr \<rightharpoonup> bsal_red_black_node"

datatype tree_fault = Failed_assertion | Null_pointer_dereference | Wild_pointer_dereference

text \<open>
  \<open>bsal_red_black_tree_delete\<close>.  \<open>BSAL_DEBUGGER_ASSERT\<close> is not at hand: with the
  assertions compiled in (the first argument), a null \<open>cached_lowest_node\<close> fails the
  assertion; without them the next statement reads the key through the null pointer.
  \<open>--self->size\<close> is on an \<open>int\<close>; from the least \<open>int\<close> it wraps here (C leaves it
  undefined), a size that \<open>add\<close> and \<open>delete\<close> do not produce from an empty tree.
\<close>

definition bsal_red_black_tree_delete ::
  "bool \<Rightarrow> bsal_red_black_tree \<Rightarrow> addr \<Rightarrow> tree_fault + bsal_red_black_tree"
where
  "bsal_red_black_tree_delete assertions self key' =
     (if tree_size self = 0 then Inr self
      else if cached_lowest_node self = 0
      then Inl (if assertions then Failed_assertion else Null_pointer_dereference)
      else case nodes self (cached_lowest_node self) of
             None \<Rightarrow> Inl Wild_pointer_dereference
           | Some lowest \<Rightarrow>
               let self1 = (if compare self key' (key lowest) = 0
                            then self\<lparr> cached_lowest_node := parent lowest \<rparr> else self)
               in Inr (self1\<lparr> tree_size := tree_size self1 - 1 \<rparr>))"

text \<open>
  The loop of \<open>bsal_red_black_tree_get\<close>, \<open>while (node != NULL && value == NULL)\<close>; the
  result is the value and the node at the end of the loop.  On a node with the key whose
  \<open>value\<close> is null the loop comes back to the same node with \<open>value == NULL\<close>.  A run that
  never leaves the loop is \<open>None\<close>.
\<close>

partial_function (option) get_loop ::
  "(addr \<rightharpoonup> bsal_red_black_node) \<Rightarrow> (addr \<Rightarrow> addr \<Rightarrow> int) \<Rightarrow> addr \<Rightarrow> addr \<Rightarrow>
   (tree_fault + addr \<times> addr) option"
where
  "get_loop memory' cmp key' node =
     (if node = 0 then Some (Inr (0, node))
      else case memory' node of
             None \<Rightarrow> Some (Inl Wild_pointer_dereference)
           | Some n \<Rightarrow>
               if cmp key' (key n) < 0 then get_loop memory' cmp key' (left_node n)
               else if cmp key' (key n) > 0 then get_loop memory' cmp key' (right_node n)
               else if node_value n = 0 then get_loop memory' cmp key' node
               else Some (Inr (node_value n, node)))"

text \<open>
  \<open>bsal_red_black_tree_get\<close>: the value (a pointer, null when the key is not found) and the
  tree, whose \<open>cached_last_node\<close> the search sets.  The shortcut compares the pointer to
  the last node's key with the pointer given.
\<close>

definition bsal_red_black_tree_get ::
  "bsal_red_black_tree \<Rightarrow> addr \<Rightarrow> (tree_fault + addr \<times> bsal_red_black_tree) option"
where
  "bsal_red_black_tree_get self key' =
     (let search =
            (case get_loop (nodes self) (compare self) key' (root self) of
               None \<Rightarrow> None
             | Some (Inl f) \<Rightarrow> Some (Inl f)
             | Some (Inr (found, node)) \<Rightarrow> Some (Inr (found, self\<lparr> cached_last_node := node \<rparr>)))
      in if cached_last_node self = 0 then search
         else case nodes self (cached_last_node self) of
                None \<Rightarrow> Some (Inl Wild_pointer_dereference)
              | Some last_node \<Rightarrow>
                  if key last_node = key' then Some (Inr (node_value last_node, self))
                  else search)"

text \<open>The lowest-key cache and the size are the only fields \<open>delete\<close> may change.\<close>

definition same_but_size_and_lowest ::
  "bsal_red_black_tree \<Rightarrow> bsal_red_black_tree \<Rightarrow> bool"
where
  "same_but_size_and_lowest self1 self =
     (self1 = self\<lparr> tree_size := tree_size self1,
                    cached_lowest_node := cached_lowest_node self1 \<rparr>)"

text \<open>
  The tree that \<open>init\<close>, \<open>add(k)\<close>, \<open>add(k)\<close> leave for a key \<open>k\<close> of 8 bytes, with the node
  of the first \<open>add\<close> at 1000 and that of the second at 2000 (each followed by its key and
  its value): the first node is the black root and the cached lowest node (the second
  key does not differ from the lowest, so the cache stays), the second node is its red
  right child and the cached last node.  The caller's key is at 3000.  \<open>example_compare\<close>
  compares the keys at two of these addresses (all hold \<open>k\<close>).
\<close>

definition example_compare :: "addr \<Rightarrow> addr \<Rightarrow> int" where
  "example_compare a b =
     (if a \<in> {1100, 2100, 3000} \<and> b \<in> {1100, 2100, 3000} then 0
      else if a < b then - 1 else 1)"

definition example_tree :: bsal_red_black_tree where
  "example_tree =
     \<lparr> root = 1000, tree_size = 2, key_size = 8, value_size = 8,
       compare = example_compare, cached_last_node = 2000, cached_lowest_node = 1000,
       nodes = [1000 \<mapsto> \<lparr> key = 1100, node_value = 1200, left_node = 0, right_node = 2000,
                           parent = 0, color = BSAL_COLOR_BLACK \<rparr>,
                2000 \<mapsto> \<lparr> key = 2100, node_value = 2200, left_node = 0, right_node = 0,
                           parent = 1000, color = BSAL_COLOR_RED \<rparr>] \<rparr>"


subsection \<open>Deletion\<close>

lemma example_tree_get:
  "bsal_red_black_tree_get example_tree 3000 =
   Some (Inr (1200, example_tree\<lparr> cached_last_node := 1000 \<rparr>))"
  by (simp add: bsal_red_black_tree_get_def example_tree_def get_loop.simps example_compare_def)

text \<open>
  What \<open>delete\<close> does where it returns.  On a tree of size 0 it returns the tree as it
  is.  On a tree whose size is not 0 and whose cached lowest node is a node (not \<open>NULL\<close>)
  it returns the tree with the size decremented by one and with the cached lowest node
  replaced by its parent when the key compares equal to the lowest key.  Whenever
  \<open>delete\<close> returns, the tree differs from the former one in the size and the lowest-key
  cache at most: the nodes in memory and the root are the same (no node is unlinked), and
  a \<open>get\<close> with the same key that returned a value before the deletion returns that value
  after it.
\<close>

lemma delete_returns_size_and_lowest_cache:
  "(tree_size self = 0 \<longrightarrow> bsal_red_black_tree_delete assertions self key' = Inr self) \<and>
   (tree_size self \<noteq> 0 \<longrightarrow> cached_lowest_node self \<noteq> 0 \<longrightarrow>
    nodes self (cached_lowest_node self) = Some lowest \<longrightarrow>
    bsal_red_black_tree_delete assertions self key' =
      Inr (self\<lparr> cached_lowest_node :=
                   (if compare self key' (key lowest) = 0 then parent lowest
                    else cached_lowest_node self),
                 tree_size := tree_size self - 1 \<rparr>)) \<and>
   (bsal_red_black_tree_delete assertions self key' = Inr self1 \<longrightarrow>
    same_but_size_and_lowest self1 self \<and>
    nodes self1 = nodes self \<and> root self1 = root self \<and>
    (bsal_red_black_tree_get self key' = Some (Inr (stored, after)) \<longrightarrow>
     bsal_red_black_tree_get self1 key' =
       Some (Inr (stored, after\<lparr> tree_size := tree_size self1,
                                 cached_lowest_node := cached_lowest_node self1 \<rparr>))))"
proof (intro conjI impI)
  show "bsal_red_black_tree_delete assertions self key' = Inr self" if "tree_size self = 0"
    using that by (simp add: bsal_red_black_tree_delete_def)
  show "bsal_red_black_tree_delete assertions self key' =
      Inr (self\<lparr> cached_lowest_node :=
                   (if compare self key' (key lowest) = 0 then parent lowest
                    else cached_lowest_node self),
                 tree_size := tree_size self - 1 \<rparr>)"
    if "tree_size self \<noteq> 0" "cached_lowest_node self \<noteq> 0"
      "nodes self (cached_lowest_node self) = Some lowest"
    using that by (simp add: bsal_red_black_tree_delete_def Let_def)
  assume d: "bsal_red_black_tree_delete assertions self key' = Inr self1"
  then show s: "same_but_size_and_lowest self1 self"
    by (auto simp: bsal_red_black_tree_delete_def same_but_size_and_lowest_def Let_def
        split: if_splits option.splits)
  then have eq: "self1 = self\<lparr> tree_size := tree_size self1,
                    cached_lowest_node := cached_lowest_node self1 \<rparr>"
    by (simp add: same_but_size_and_lowest_def)
  show "nodes self1 = nodes self" by (subst eq) simp
  show "root self1 = root self" by (subst eq) simp
  assume g: "bsal_red_black_tree_get self key' = Some (Inr (stored, after))"
  show "bsal_red_black_tree_get self1 key' =
       Some (Inr (stored, after\<lparr> tree_size := tree_size self1,
                                 cached_lowest_node := cached_lowest_node self1 \<rparr>))"
    using g
    by (subst eq)
      (auto simp: bsal_red_black_tree_get_def Let_def split: option.splits sum.splits if_splits)
qed

lemma delete_returns_size_and_lowest_cache_example:
  "tree_size example_tree \<noteq> 0 \<and> cached_lowest_node example_tree \<noteq> 0 \<and>
   nodes example_tree (cached_lowest_node example_tree) =
     Some \<lparr> key = 1100, node_value = 1200, left_node = 0, right_node = 2000,
            parent = 0, color = BSAL_COLOR_BLACK \<rparr> \<and>
   bsal_red_black_tree_delete True example_tree 3000 =
     Inr (example_tree\<lparr> cached_lowest_node := 0, tree_size := 1 \<rparr>) \<and>
   bsal_red_black_tree_get example_tree 3000 =
     Some (Inr (1200, example_tree\<lparr> cached_last_node := 1000 \<rparr>)) \<and>
   bsal_red_black_tree_get (example_tree\<lparr> cached_lowest_node := 0, tree_size := 1 \<rparr>) 3000 =
     Some (Inr (1200, example_tree\<lparr> cached_last_node := 1000, tree_size := 1,
                                    cached_lowest_node := 0 \<rparr>)) \<and>
   bsal_red_black_tree_delete True (example_tree\<lparr> tree_size := 0 \<rparr>) 3000 =
     Inr (example_tree\<lparr> tree_size := 0 \<rparr>)"
proof -
  let ?lowest = "\<lparr> key = 1100, node_value = 1200, left_node = 0, right_node = 2000,
            parent = 0, color = BSAL_COLOR_BLACK \<rparr>"
  let ?t1 = "example_tree\<lparr> cached_lowest_node := 0, tree_size := 1 \<rparr>"
  have h: "tree_size example_tree \<noteq> 0" "cached_lowest_node example_tree \<noteq> 0"
    "nodes example_tree (cached_lowest_node example_tree) = Some ?lowest"
    by (simp_all add: example_tree_def)
  have c: "compare example_tree 3000 1100 = 0" "tree_size example_tree - 1 = 1"
    by (simp_all add: example_tree_def example_compare_def)
  note t = delete_returns_size_and_lowest_cache
  have d: "bsal_red_black_tree_delete True example_tree 3000 = Inr ?t1"
    using t [of example_tree True 3000 ?lowest, THEN conjunct2, THEN conjunct1, rule_format, OF h]
    by (simp add: c)
  have z: "bsal_red_black_tree_delete True (example_tree\<lparr> tree_size := 0 \<rparr>) 3000 =
     Inr (example_tree\<lparr> tree_size := 0 \<rparr>)"
    using t [of "example_tree\<lparr> tree_size := 0 \<rparr>" True 3000, THEN conjunct1] by simp
  have g: "bsal_red_black_tree_get ?t1 3000 =
     Some (Inr (1200, example_tree\<lparr> cached_last_node := 1000, tree_size := 1,
                                    cached_lowest_node := 0 \<rparr>))"
    using t [of example_tree True 3000 ?lowest ?t1 1200 "example_tree\<lparr> cached_last_node := 1000 \<rparr>",
        THEN conjunct2, THEN conjunct2, rule_format, OF d, THEN conjunct2, THEN conjunct2,
        THEN conjunct2, rule_format, OF example_tree_get]
    by simp
  show ?thesis using h d z g example_tree_get by simp
qed

text \<open>
  C10.  The claim (\<open>delete\<close> of a present key on a tree that is not empty decrements the
  size by one and unlinks no node) does not hold of the code.  After \<open>init\<close>, \<open>add(k)\<close>
  and \<open>add(k)\<close> (\<open>example_tree\<close>), the first \<open>delete(k)\<close> returns: the size is 1, the two
  nodes are linked as before and \<open>get(k)\<close> returns the value stored first; but the key
  compares equal to the key of the cached lowest node, the root, and the cache becomes
  the root's parent, \<open>NULL\<close>.  The second \<open>delete(k)\<close>, of a key that is present in a tree
  of size 1, does not decrement the size: it fails the function's own assertion
  \<open>cached_lowest_node != NULL\<close>, or reads the key through the null pointer when assertions
  are compiled out.
\<close>

theorem delete_of_present_key_fails_on_null_lowest_cache:
  "bsal_red_black_tree_delete True example_tree 3000 =
     Inr (example_tree\<lparr> cached_lowest_node := 0, tree_size := 1 \<rparr>) \<and>
   tree_size (example_tree\<lparr> cached_lowest_node := 0, tree_size := 1 \<rparr>) = 1 \<and>
   bsal_red_black_tree_get (example_tree\<lparr> cached_lowest_node := 0, tree_size := 1 \<rparr>) 3000 =
     Some (Inr (1200, example_tree\<lparr> cached_last_node := 1000, tree_size := 1,
                                    cached_lowest_node := 0 \<rparr>)) \<and>
   bsal_red_black_tree_delete True
       (example_tree\<lparr> cached_lowest_node := 0, tree_size := 1 \<rparr>) 3000 =
     Inl Failed_assertion \<and>
   bsal_red_black_tree_delete False
       (example_tree\<lparr> cached_lowest_node := 0, tree_size := 1 \<rparr>) 3000 =
     Inl Null_pointer_dereference"
  by (simp add: bsal_red_black_tree_delete_def bsal_red_black_tree_get_def example_tree_def
      get_loop.simps example_compare_def)


end
